theory Spec2Isabelle
  imports Main
begin

text \<open>
  A model of \<^verbatim>\<open>widgets.js\<close>, the registration and upgrade engine of the widget framework:
  \<^verbatim>\<open>register\<close>, \<^verbatim>\<open>createElement\<close>, \<^verbatim>\<open>upgrade\<close>, \<^verbatim>\<open>parse\<close> and the four descriptor
  factories, as functions on an explicit state, with every exception a result. The
  properties of the specification follow the model.
\<close>

section \<open>JavaScript values\<close>

text \<open>
  The values that flow through \<^verbatim>\<open>widgets.js\<close>: the primitives, and references to
  objects (functions, DOM nodes, prototypes, plain objects), which live in a heap so that
  identity and sharing are as in the program. Numbers are the integers and \<^verbatim>\<open>NaN\<close>;
  strings are sequences of code units below 256, the Latin-1 range of Unicode.
\<close>

datatype jsval = Undefined | Null | JBool bool | JNum int | JNaN | JStr string | JRef nat

text \<open>ToBoolean: what \<^verbatim>\<open>if (v)\<close>, \<^verbatim>\<open>!v\<close>, \<^verbatim>\<open>v || w\<close> and \<^verbatim>\<open>v ? a : b\<close> test.\<close>

fun truthy :: "jsval \<Rightarrow> bool" where
  "truthy Undefined = False"
| "truthy Null = False"
| "truthy (JBool b) = b"
| "truthy (JNum n) = (n \<noteq> 0)"
| "truthy JNaN = False"
| "truthy (JStr s) = (s \<noteq> [])"
| "truthy (JRef r) = True"

text \<open>\<^verbatim>\<open>a === b\<close>; \<^verbatim>\<open>a !== b\<close> is its negation. \<^verbatim>\<open>NaN\<close> is not equal to itself.\<close>

definition strict_eq :: "jsval \<Rightarrow> jsval \<Rightarrow> bool" where
  "strict_eq a b = (a = b \<and> a \<noteq> JNaN)"

text \<open>\<^verbatim>\<open>a || b\<close>\<close>

definition js_or :: "jsval \<Rightarrow> jsval \<Rightarrow> jsval" where
  "js_or a b = (if truthy a then a else b)"

fun digits :: "nat \<Rightarrow> string" where
  "digits n = (if n < 10 then [char_of (48 + n)] else digits (n div 10) @ [char_of (48 + n mod 10)])"

text \<open>
  ToString of a primitive, applied by the host to attribute values and by the language to
  property keys. An object converts through its own \<^verbatim>\<open>toString\<close> method (\<open>string_of\<close>
  below, where the heap is at hand); here it gives the text of a plain object.
\<close>

fun to_string :: "jsval \<Rightarrow> string" where
  "to_string Undefined = ''undefined''"
| "to_string Null = ''null''"
| "to_string (JBool b) = (if b then ''true'' else ''false'')"
| "to_string (JNum n) = (if n < 0 then CHR ''-'' # digits (nat (- n)) else digits (nat n))"
| "to_string JNaN = ''NaN''"
| "to_string (JStr s) = s"
| "to_string (JRef r) = ''[object Object]''"

datatype error =
    TypeError string  \<comment> \<open>\<^verbatim>\<open>throw new TypeError(message)\<close>\<close>
  | Error string      \<comment> \<open>\<^verbatim>\<open>throw new Error(message)\<close>\<close>
  | EngineTypeError   \<comment> \<open>raised by the language itself: a call of a non-function, a member of \<^verbatim>\<open>undefined\<close>\<close>
  | Thrown jsval      \<comment> \<open>raised by code outside the module: a callback, the host\<close>

type_synonym 'a result = "error + 'a"

section \<open>Strings\<close>

text \<open>
  \<^verbatim>\<open>String.prototype.toLowerCase\<close> maps every cased letter. Among the code units below 256
  the upper-case letters are \<^verbatim>\<open>A\<close> to \<^verbatim>\<open>Z\<close> (65 to 90) and the letters 192 to 222 without the
  multiplication sign 215; the lower-case form of each is 32 further on.
\<close>

definition lower_char :: "char \<Rightarrow> char" where
  "lower_char c =
     (if (65 \<le> (of_char c :: nat) \<and> (of_char c :: nat) \<le> 90)
         \<or> (192 \<le> (of_char c :: nat) \<and> (of_char c :: nat) \<le> 222 \<and> (of_char c :: nat) \<noteq> 215)
      then char_of (of_char c + (32 :: nat)) else c)"

text \<open>\<^verbatim>\<open>toUpperCase\<close>, which the module applies to a letter matched by \<^verbatim>\<open>[a-z]\<close> only.\<close>

definition upper_char :: "char \<Rightarrow> char" where
  "upper_char c = (if 97 \<le> (of_char c :: nat) \<and> (of_char c :: nat) \<le> 122 then char_of (of_char c - (32 :: nat)) else c)"

definition is_lower_az :: "char \<Rightarrow> bool" where
  "is_lower_az c = (97 \<le> (of_char c :: nat) \<and> (of_char c :: nat) \<le> 122)"

definition toLowerCase :: "string \<Rightarrow> string" where
  "toLowerCase s = map lower_char s"

text \<open>\<^verbatim>\<open>s.replace(/-([a-z])/g, function (m, w) { return w.toUpperCase(); })\<close>\<close>

fun replace_dash_letter :: "string \<Rightarrow> string" where
  "replace_dash_letter [] = []"
| "replace_dash_letter [c] = [c]"
| "replace_dash_letter (c # d # s) =
     (if c = CHR ''-'' \<and> is_lower_az d then upper_char d # replace_dash_letter s
      else c # replace_dash_letter (d # s))"

definition toCamelCase :: "string \<Rightarrow> string" where
  "toCamelCase str = replace_dash_letter (toLowerCase str)"

section \<open>Objects and the heap\<close>

text \<open>
  One record for every object the module touches. \<open>props\<close> are the object's own
  properties. \<open>proto\<close> is a prototype link written at run time (\<^verbatim>\<open>__proto__ = ...\<close>, the
  only prototype link the module ever writes); the rest of an object's prototype chain is
  fixed, and what it contributes is \<open>inherited\<close>. The DOM side of a node is its
  \<open>nodeName\<close>, its \<open>attributes\<close> and whether the document contains it. Properties are
  data properties: the module reads no property attribute (enumerable, writable), so none
  is kept.
\<close>

record jsobject =
  props :: "string \<rightharpoonup> jsval"
  proto :: "nat option"
  inherited :: "string \<rightharpoonup> jsval"
  nodeName :: string
  attributes :: "string \<rightharpoonup> string"
  in_document :: bool     \<comment> \<open>\<^verbatim>\<open>doc.documentElement.contains(node)\<close>\<close>
  html_element :: bool    \<comment> \<open>\<^verbatim>\<open>object instanceof HTMLElement\<close>\<close>
  callable :: bool        \<comment> \<open>the object is a function\<close>
  source_text :: string   \<comment> \<open>\<^verbatim>\<open>object.toString()\<close>\<close>

type_synonym heap = "nat \<Rightarrow> jsobject"

text \<open>\<^verbatim>\<open>obj[k]\<close>: the own property, else the prototype chain.\<close>

definition get_prop :: "heap \<Rightarrow> nat \<Rightarrow> string \<Rightarrow> jsval" where
  "get_prop h r k =
     (case props (h r) k of
        Some v \<Rightarrow> v
      | None \<Rightarrow>
          (case proto (h r) of
             Some p \<Rightarrow>
               (case props (h p) k of
                  Some v \<Rightarrow> v
                | None \<Rightarrow> (case inherited (h p) k of Some v \<Rightarrow> v | None \<Rightarrow> Undefined))
           | None \<Rightarrow> (case inherited (h r) k of Some v \<Rightarrow> v | None \<Rightarrow> Undefined)))"

text \<open>\<^verbatim>\<open>k in obj\<close>\<close>

definition has_prop :: "heap \<Rightarrow> nat \<Rightarrow> string \<Rightarrow> bool" where
  "has_prop h r k =
     (props (h r) k \<noteq> None \<or>
      (case proto (h r) of
         Some p \<Rightarrow> props (h p) k \<noteq> None \<or> inherited (h p) k \<noteq> None
       | None \<Rightarrow> inherited (h r) k \<noteq> None))"

text \<open>\<^verbatim>\<open>obj[k] = v\<close> and \<^verbatim>\<open>Object.defineProperty(obj, k, {value: v, ...})\<close>: an own property.\<close>

definition set_prop :: "heap \<Rightarrow> nat \<Rightarrow> string \<Rightarrow> jsval \<Rightarrow> heap" where
  "set_prop h r k v = h(r := (h r)\<lparr>props := (props (h r))(k \<mapsto> v)\<rparr>)"

text \<open>The host's attribute interface of a node.\<close>

definition getAttribute :: "heap \<Rightarrow> nat \<Rightarrow> string \<Rightarrow> jsval" where
  "getAttribute h r name = (case attributes (h r) name of Some s \<Rightarrow> JStr s | None \<Rightarrow> Null)"

definition setAttribute :: "heap \<Rightarrow> nat \<Rightarrow> string \<Rightarrow> jsval \<Rightarrow> heap" where
  "setAttribute h r name v = h(r := (h r)\<lparr>attributes := (attributes (h r))(name \<mapsto> to_string v)\<rparr>)"

definition removeAttribute :: "heap \<Rightarrow> nat \<Rightarrow> string \<Rightarrow> heap" where
  "removeAttribute h r name = h(r := (h r)\<lparr>attributes := (attributes (h r))(name := None)\<rparr>)"

text \<open>
  \<^verbatim>\<open>v[k]\<close> for a value that is neither \<^verbatim>\<open>undefined\<close> nor \<^verbatim>\<open>null\<close>; the properties the
  module asks for are not those of a primitive.
\<close>

definition member :: "heap \<Rightarrow> jsval \<Rightarrow> string \<Rightarrow> jsval" where
  "member h v k = (case v of JRef r \<Rightarrow> get_prop h r k | _ \<Rightarrow> Undefined)"

text \<open>
  ToString where the value may be an object: in a concatenation, as a property key, as an
  argument that the host reads as a string.
\<close>

definition string_of :: "heap \<Rightarrow> jsval \<Rightarrow> string" where
  "string_of h v = (case v of JRef r \<Rightarrow> source_text (h r) | _ \<Rightarrow> to_string v)"

section \<open>The module's state and its collaborators\<close>

text \<open>
  An entry of \<^verbatim>\<open>registry\<close>: \<^verbatim>\<open>{prototype: ..., extends: ..., _prototype: ...}\<close>. A field that
  \<^verbatim>\<open>register\<close> did not write reads as \<^verbatim>\<open>undefined\<close>: \<^verbatim>\<open>Object.prototype\<close>, from which an
  entry inherits as well, is taken to hold no property named \<^verbatim>\<open>extends\<close> or \<^verbatim>\<open>_prototype\<close>.
\<close>

record widget =
  prototype :: nat
  extends :: jsval
  raw_prototype :: "(string \<rightharpoonup> jsval) option"   \<comment> \<open>\<^verbatim>\<open>_prototype\<close>\<close>

text \<open>
  What the module does to a node and asks of its collaborators, in the order it happens.
  The trace is an observer: no step of the module reads it.
\<close>

datatype event =
    ProtoAssigned nat nat     \<comment> \<open>\<^verbatim>\<open>element.__proto__ = widget.prototype\<close>\<close>
  | ProtoRemoved nat          \<comment> \<open>the same, where \<^verbatim>\<open>widget.prototype\<close> is \<^verbatim>\<open>null\<close>\<close>
  | PropertiesDefined nat     \<comment> \<open>\<^verbatim>\<open>Object.defineProperties(element, widget._prototype)\<close>\<close>
  | Marked nat                \<comment> \<open>\<^verbatim>\<open>element.__upgraded__ = true\<close>\<close>
  | Invoked string nat bool   \<comment> \<open>\<^verbatim>\<open>element[name].call(element, ...)\<close>, and whether the node then carried the marker\<close>
  | Queried nat string        \<comment> \<open>\<^verbatim>\<open>root.querySelectorAll(selectors)\<close>\<close>

text \<open>
  The two variables of the module, \<^verbatim>\<open>registry\<close> (from tag to entry) and \<^verbatim>\<open>selectors\<close>,
  with the heap and the trace. The field \<open>registry\<close> holds the own properties of the object
  \<^verbatim>\<open>registry = {}\<close>, the entries that \<^verbatim>\<open>register\<close> wrote; what the object inherits from
  \<^verbatim>\<open>Object.prototype\<close> is added where the module reads it (\<open>in_registry\<close>, \<open>inherited_value\<close>).
\<close>

record world =
  registry :: "string \<rightharpoonup> widget"
  selectors :: "string list"
  heap :: heap
  trace :: "event list"

text \<open>
  The collaborators: the two capability flags of \<^verbatim>\<open>has\<close>, the code of every function
  object (application callbacks, getters and setters), the host document, the object
  \<^verbatim>\<open>Object.prototype\<close>, and \<^verbatim>\<open>compose\<close>. A function runs on the heap and may change any object
  in it, the node it is called on included; \<^verbatim>\<open>registry\<close> and \<^verbatim>\<open>selectors\<close> are private to the
  module, and a function that calls back into the module is outside the model.
  \<^verbatim>\<open>Object.defineProperties\<close> is a parameter where its second argument is a table that the
  module did not build.
\<close>

record env =
  has_document_register :: bool    \<comment> \<open>\<^verbatim>\<open>has("document-register")\<close>\<close>
  has_proto :: bool                \<comment> \<open>\<^verbatim>\<open>has("__proto__")\<close>\<close>
  apply_fun :: "nat \<Rightarrow> nat \<Rightarrow> jsval list \<Rightarrow> heap \<Rightarrow> jsval result \<times> heap"
  doc :: nat                       \<comment> \<open>the document\<close>
  HTMLElement :: nat               \<comment> \<open>the constructor \<^verbatim>\<open>HTMLElement\<close>\<close>
  Object_prototype :: nat          \<comment> \<open>the object \<^verbatim>\<open>Object.prototype\<close>\<close>
  defineProperties :: "nat \<Rightarrow> jsval \<Rightarrow> heap \<Rightarrow> unit result \<times> heap"
  querySelectorAll :: "nat \<Rightarrow> string \<Rightarrow> heap \<Rightarrow> nat list result"
  doc_createElement :: "string \<Rightarrow> heap \<Rightarrow> nat result \<times> heap"
  doc_register :: "string \<Rightarrow> widget \<Rightarrow> heap \<Rightarrow> jsval result \<times> heap"
  compose :: "jsval list \<Rightarrow> heap \<Rightarrow> jsval result \<times> heap"

text \<open>\<^verbatim>\<open>f.call(this, args...)\<close>\<close>

definition call_function :: "env \<Rightarrow> jsval \<Rightarrow> nat \<Rightarrow> jsval list \<Rightarrow> heap \<Rightarrow> jsval result \<times> heap" where
  "call_function env f this args h =
     (case f of
        JRef r \<Rightarrow> if callable (h r) then apply_fun env r this args h else (Inl EngineTypeError, h)
      | _ \<Rightarrow> (Inl EngineTypeError, h))"

text \<open>
  \<^verbatim>\<open>registry\<close> and \<^verbatim>\<open>tags\<close> are object literals, so a name that is not their own is looked
  up in \<^verbatim>\<open>Object.prototype\<close>: \<^verbatim>\<open>constructor\<close>, \<^verbatim>\<open>toString\<close> and whatever else that object
  holds. \<^verbatim>\<open>has("__proto__")\<close> is the value of \<^verbatim>\<open>Object.__proto__\<close>: where it holds, every
  object inherits the accessor \<^verbatim>\<open>__proto__\<close>, which on the two literals reads
  \<^verbatim>\<open>Object.prototype\<close> itself.
\<close>

definition inherits :: "env \<Rightarrow> heap \<Rightarrow> string \<Rightarrow> bool" where
  "inherits env h k = ((has_proto env \<and> k = ''__proto__'') \<or> has_prop h (Object_prototype env) k)"

definition inherited_value :: "env \<Rightarrow> heap \<Rightarrow> string \<Rightarrow> jsval" where
  "inherited_value env h k =
     (if has_proto env \<and> k = ''__proto__'' then JRef (Object_prototype env)
      else get_prop h (Object_prototype env) k)"

text \<open>\<^verbatim>\<open>tag in registry\<close>\<close>

definition in_registry :: "env \<Rightarrow> world \<Rightarrow> string \<Rightarrow> bool" where
  "in_registry env w tag = (registry w tag \<noteq> None \<or> inherits env (heap w) tag)"

section \<open>upgrade\<close>

text \<open>\<^verbatim>\<open>element.getAttribute('is') || element.nodeName.toLowerCase()\<close>, as a property key.\<close>

definition registry_key :: "heap \<Rightarrow> nat \<Rightarrow> string" where
  "registry_key h element =
     to_string (js_or (getAttribute h element ''is'') (JStr (toLowerCase (nodeName (h element)))))"

text \<open>
  \<^verbatim>\<open>if (has("__proto__")) { element.__proto__ = widget.prototype; }
  else { Object.defineProperties(element, widget._prototype); }\<close>
  The second throws when the entry has no \<^verbatim>\<open>_prototype\<close>.
\<close>

definition redefine_prototype :: "env \<Rightarrow> nat \<Rightarrow> widget \<Rightarrow> world \<Rightarrow> unit result \<times> world" where
  "redefine_prototype env element wd w =
     (if has_proto env then
        (Inr (), w\<lparr>heap := (heap w)(element := (heap w element)\<lparr>proto := Some (prototype wd)\<rparr>),
                   trace := trace w @ [ProtoAssigned element (prototype wd)]\<rparr>)
      else
        (case raw_prototype wd of
           None \<Rightarrow> (Inl EngineTypeError, w)
         | Some descriptors \<Rightarrow>
             (Inr (), w\<lparr>heap := (heap w)(element := (heap w element)\<lparr>props := props (heap w element) ++ descriptors\<rparr>),
                        trace := trace w @ [PropertiesDefined element]\<rparr>)))"

text \<open>\<^verbatim>\<open>element.__upgraded__ = true\<close>\<close>

definition mark_upgraded :: "nat \<Rightarrow> world \<Rightarrow> world" where
  "mark_upgraded element w =
     w\<lparr>heap := set_prop (heap w) element ''__upgraded__'' (JBool True),
       trace := trace w @ [Marked element]\<rparr>"

text \<open>
  \<^verbatim>\<open>element[name].call(element, arg)\<close>, for a property already found truthy. A value that
  is not a function cannot be called.
\<close>

definition invoke_callback_with :: "env \<Rightarrow> string \<Rightarrow> nat \<Rightarrow> jsval \<Rightarrow> world \<Rightarrow> unit result \<times> world" where
  "invoke_callback_with env name element arg w =
     (case get_prop (heap w) element name of
        JRef f \<Rightarrow>
          (if callable (heap w f) then
             (let w1 = w\<lparr>trace := trace w @ [Invoked name element (truthy (get_prop (heap w) element ''__upgraded__''))]\<rparr>
              in case apply_fun env f element [arg] (heap w) of
                   (Inl err, h') \<Rightarrow> (Inl err, w1\<lparr>heap := h'\<rparr>)
                 | (Inr v, h') \<Rightarrow> (Inr (), w1\<lparr>heap := h'\<rparr>))
           else (Inl EngineTypeError, w))
      | _ \<Rightarrow> (Inl EngineTypeError, w))"

text \<open>\<^verbatim>\<open>element[name].call(element, widget.prototype)\<close>, for an entry of the registry.\<close>

definition invoke_callback :: "env \<Rightarrow> string \<Rightarrow> nat \<Rightarrow> widget \<Rightarrow> world \<Rightarrow> unit result \<times> world" where
  "invoke_callback env name element wd w = invoke_callback_with env name element (JRef (prototype wd)) w"

text \<open>
  \<^verbatim>\<open>if (element.readyCallback) { element.readyCallback.call(element, widget.prototype); }\<close>
\<close>

definition ready_step :: "env \<Rightarrow> nat \<Rightarrow> widget \<Rightarrow> world \<Rightarrow> unit result \<times> world" where
  "ready_step env element wd w =
     (if truthy (get_prop (heap w) element ''readyCallback'')
      then invoke_callback env ''readyCallback'' element wd w
      else (Inr (), w))"

text \<open>
  \<^verbatim>\<open>if (element.insertedCallback && doc.documentElement.contains(element)) {
    element.insertedCallback.call(element, widget.prototype); }\<close>
\<close>

definition inserted_step :: "env \<Rightarrow> nat \<Rightarrow> widget \<Rightarrow> world \<Rightarrow> unit result \<times> world" where
  "inserted_step env element wd w =
     (if truthy (get_prop (heap w) element ''insertedCallback'') \<and> in_document (heap w element)
      then invoke_callback env ''insertedCallback'' element wd w
      else (Inr (), w))"

text \<open>
  The same steps where \<^verbatim>\<open>registry[key]\<close> is no entry but a value \<open>v\<close> that \<^verbatim>\<open>registry\<close>
  inherits, \<^verbatim>\<open>Object\<close> for the key \<^verbatim>\<open>constructor\<close>. The accessor \<^verbatim>\<open>__proto__\<close> takes an
  object or \<^verbatim>\<open>null\<close> and ignores any other value; \<^verbatim>\<open>Object.defineProperties\<close> throws on
  \<^verbatim>\<open>undefined\<close> and \<^verbatim>\<open>null\<close>. \<^verbatim>\<open>widget.prototype\<close> is read anew for each call.
\<close>

definition redefine_prototype_inherited :: "env \<Rightarrow> nat \<Rightarrow> jsval \<Rightarrow> world \<Rightarrow> unit result \<times> world" where
  "redefine_prototype_inherited env element v w =
     (if has_proto env then
        (case member (heap w) v ''prototype'' of
           JRef p \<Rightarrow>
             (Inr (), w\<lparr>heap := (heap w)(element := (heap w element)\<lparr>proto := Some p\<rparr>),
                        trace := trace w @ [ProtoAssigned element p]\<rparr>)
         | Null \<Rightarrow>
             (Inr (), w\<lparr>heap := (heap w)(element := (heap w element)\<lparr>proto := None, inherited := Map.empty\<rparr>),
                        trace := trace w @ [ProtoRemoved element]\<rparr>)
         | _ \<Rightarrow> (Inr (), w))
      else
        (case member (heap w) v ''_prototype'' of
           Undefined \<Rightarrow> (Inl EngineTypeError, w)
         | Null \<Rightarrow> (Inl EngineTypeError, w)
         | table \<Rightarrow>
             (case defineProperties env element table (heap w) of
                (Inl err, h') \<Rightarrow> (Inl err, w\<lparr>heap := h'\<rparr>)
              | (Inr u, h') \<Rightarrow> (Inr (), w\<lparr>heap := h', trace := trace w @ [PropertiesDefined element]\<rparr>))))"

definition ready_step_inherited :: "env \<Rightarrow> nat \<Rightarrow> jsval \<Rightarrow> world \<Rightarrow> unit result \<times> world" where
  "ready_step_inherited env element v w =
     (if truthy (get_prop (heap w) element ''readyCallback'')
      then invoke_callback_with env ''readyCallback'' element (member (heap w) v ''prototype'') w
      else (Inr (), w))"

definition inserted_step_inherited :: "env \<Rightarrow> nat \<Rightarrow> jsval \<Rightarrow> world \<Rightarrow> unit result \<times> world" where
  "inserted_step_inherited env element v w =
     (if truthy (get_prop (heap w) element ''insertedCallback'') \<and> in_document (heap w element)
      then invoke_callback_with env ''insertedCallback'' element (member (heap w) v ''prototype'') w
      else (Inr (), w))"

definition upgrade_inherited :: "env \<Rightarrow> nat \<Rightarrow> jsval \<Rightarrow> world \<Rightarrow> unit result \<times> world" where
  "upgrade_inherited env element v w =
     (case redefine_prototype_inherited env element v w of
        (Inl err, w1) \<Rightarrow> (Inl err, w1)
      | (Inr u, w1) \<Rightarrow>
          (case ready_step_inherited env element v (mark_upgraded element w1) of
             (Inl err, w3) \<Rightarrow> (Inl err, w3)
           | (Inr u, w3) \<Rightarrow> inserted_step_inherited env element v w3))"

text \<open>
  \<^verbatim>\<open>var widget = registry[key]; if (widget) { ... }\<close>: an entry is an object and truthy;
  where the key is no tag of the registry, \<^verbatim>\<open>widget\<close> is what \<^verbatim>\<open>registry\<close> inherits under
  that name.
\<close>

definition upgrade :: "env \<Rightarrow> nat \<Rightarrow> world \<Rightarrow> unit result \<times> world" where
  "upgrade env element w =
     (if \<not> truthy (get_prop (heap w) element ''__upgraded__'') then
        (case registry w (registry_key (heap w) element) of
           None \<Rightarrow>
             (if truthy (inherited_value env (heap w) (registry_key (heap w) element))
              then upgrade_inherited env element (inherited_value env (heap w) (registry_key (heap w) element)) w
              else (Inr (), w))
         | Some wd \<Rightarrow>
             (case redefine_prototype env element wd w of
                (Inl err, w1) \<Rightarrow> (Inl err, w1)
              | (Inr u, w1) \<Rightarrow>
                  (case ready_step env element wd (mark_upgraded element w1) of
                     (Inl err, w3) \<Rightarrow> (Inl err, w3)
                   | (Inr u, w3) \<Rightarrow> inserted_step env element wd w3)))
      else (Inr (), w))"

section \<open>parse\<close>

text \<open>An array as a string: its elements joined by commas.\<close>

fun join_comma :: "string list \<Rightarrow> string" where
  "join_comma [] = []"
| "join_comma [x] = x"
| "join_comma (x # y # ys) = x @ '','' @ join_comma (y # ys)"

text \<open>
  \<^verbatim>\<open>while (node = nodes[idx++]) { upgrade(node); }\<close>
  A node list holds objects, so the loop ends where the index leaves the list; an
  exception of \<^verbatim>\<open>upgrade\<close> ends it at once.
\<close>

function parse_loop :: "env \<Rightarrow> nat list \<Rightarrow> nat \<Rightarrow> world \<Rightarrow> unit result \<times> world" where
  "parse_loop env nodes idx w =
     (if idx < length nodes then
        (case upgrade env (nodes ! idx) w of
           (Inl err, w') \<Rightarrow> (Inl err, w')
         | (Inr u, w') \<Rightarrow> parse_loop env nodes (Suc idx) w')
      else (Inr (), w))"
  by pat_completeness auto
termination
  by (relation "measure (\<lambda>(env, nodes, idx, w). length nodes - idx)") auto

definition parse :: "env \<Rightarrow> jsval \<Rightarrow> world \<Rightarrow> unit result \<times> world" where
  "parse env root w =
     (if has_document_register env then (Inr (), w)
      else
        (case js_or root (JRef (doc env)) of
           JRef r \<Rightarrow>
             (let w1 = w\<lparr>trace := trace w @ [Queried r (join_comma (selectors w))]\<rparr>
              in case querySelectorAll env r (join_comma (selectors w)) (heap w) of
                   Inl err \<Rightarrow> (Inl err, w1)
                 | Inr nodes \<Rightarrow> parse_loop env nodes 0 w1)
         | _ \<Rightarrow> (Inl EngineTypeError, w)))"

section \<open>createElement\<close>

text \<open>
  \<^verbatim>\<open>var base = registry[tag] ? registry[tag].extends : null\<close>, then
  \<^verbatim>\<open>doc.createElement(base || tag)\<close>, which reads its argument as a string.
\<close>

definition createElement :: "env \<Rightarrow> string \<Rightarrow> world \<Rightarrow> nat result \<times> world" where
  "createElement env tag w =
     (let base = (case registry w tag of
                    Some wd \<Rightarrow> extends wd
                  | None \<Rightarrow>
                      if truthy (inherited_value env (heap w) tag)
                      then member (heap w) (inherited_value env (heap w) tag) ''extends''
                      else Null)
      in case doc_createElement env (string_of (heap w) (js_or base (JStr tag))) (heap w) of
           (Inl err, h1) \<Rightarrow> (Inl err, w\<lparr>heap := h1\<rparr>)
         | (Inr element, h1) \<Rightarrow>
             (case upgrade env element
                     (w\<lparr>heap := (if truthy base then setAttribute h1 element ''is'' (JStr tag) else h1)\<rparr>) of
                (Inl err, w') \<Rightarrow> (Inl err, w')
              | (Inr u, w') \<Rightarrow> (Inr element, w')))"

section \<open>register\<close>

text \<open>\<^verbatim>\<open>v instanceof HTMLElement\<close>\<close>

definition instanceof_HTMLElement :: "heap \<Rightarrow> jsval \<Rightarrow> bool" where
  "instanceof_HTMLElement h v = (case v of JRef r \<Rightarrow> html_element (h r) | _ \<Rightarrow> False)"

text \<open>
  Modelled from the spec: \<^verbatim>\<open>properties.shadow\<close> of \<^verbatim>\<open>./lib/core/properties\<close>, which is
  not among the sources. The specification names it the helper that defines a hidden,
  non-enumerable backing property; the module reads that property back as
  \<^verbatim>\<open>'_' + name\<close> and returns the result of the call from its getters as the value of the
  property. So the model defines \<^verbatim>\<open>'_' + name\<close> on the destination object and yields the
  value; a destination that is no object is refused.
\<close>

definition shadow :: "heap \<Rightarrow> jsval \<Rightarrow> string \<Rightarrow> jsval \<Rightarrow> jsval result \<times> heap" where
  "shadow h dest name v =
     (case dest of
        JRef r \<Rightarrow> (Inr v, set_prop h r (CHR ''_'' # name) v)
      | _ \<Rightarrow> (Inl EngineTypeError, h))"

text \<open>The hash \<^verbatim>\<open>tags\<close> of element interfaces to tag names.\<close>

definition tags :: "(string \<times> string) list" where
  "tags =
    [(''HTMLAnchorElement'', ''a''), (''HTMLAppletElement'', ''applet''), (''HTMLAreaElement'', ''area''),
     (''HTMLAudioElement'', ''audio''), (''HTMLBaseElement'', ''base''), (''HTMLBRElement'', ''br''),
     (''HTMLButtonElement'', ''button''), (''HTMLCanvasElement'', ''canvas''), (''HTMLDataElement'', ''data''),
     (''HTMLDataListElement'', ''datalist''), (''HTMLDivElement'', ''div''), (''HTMLDListElement'', ''dl''),
     (''HTMLDirectoryElement'', ''directory''), (''HTMLEmbedElement'', ''embed''), (''HTMLFieldSetElement'', ''fieldset''),
     (''HTMLFontElement'', ''font''), (''HTMLFormElement'', ''form''), (''HTMLHeadElement'', ''head''),
     (''HTMLHeadingElement'', ''h1''), (''HTMLHtmlElement'', ''html''), (''HTMLHRElement'', ''hr''),
     (''HTMLIFrameElement'', ''iframe''), (''HTMLImageElement'', ''img''), (''HTMLInputElement'', ''input''),
     (''HTMLKeygenElement'', ''keygen''), (''HTMLLabelElement'', ''label''), (''HTMLLegendElement'', ''legend''),
     (''HTMLLIElement'', ''li''), (''HTMLLinkElement'', ''link''), (''HTMLMapElement'', ''map''),
     (''HTMLMediaElement'', ''media''), (''HTMLMenuElement'', ''menu''), (''HTMLMetaElement'', ''meta''),
     (''HTMLMeterElement'', ''meter''), (''HTMLModElement'', ''ins''), (''HTMLObjectElement'', ''object''),
     (''HTMLOListElement'', ''ol''), (''HTMLOptGroupElement'', ''optgroup''), (''HTMLOptionElement'', ''option''),
     (''HTMLOutputElement'', ''output''), (''HTMLParagraphElement'', ''p''), (''HTMLParamElement'', ''param''),
     (''HTMLPreElement'', ''pre''), (''HTMLProgressElement'', ''progress''), (''HTMLQuoteElement'', ''quote''),
     (''HTMLScriptElement'', ''script''), (''HTMLSelectElement'', ''select''), (''HTMLSourceElement'', ''source''),
     (''HTMLSpanElement'', ''span''), (''HTMLStyleElement'', ''style''), (''HTMLTableElement'', ''table''),
     (''HTMLTableCaptionElement'', ''caption''), (''HTMLTableDataCellElement'', ''td''), (''HTMLTableHeaderCellElement'', ''th''),
     (''HTMLTableColElement'', ''col''), (''HTMLTableRowElement'', ''tr''), (''HTMLTableSectionElement'', ''tbody''),
     (''HTMLTextAreaElement'', ''textarea''), (''HTMLTimeElement'', ''time''), (''HTMLTitleElement'', ''title''),
     (''HTMLTrackElement'', ''track''), (''HTMLUListElement'', ''ul''), (''HTMLUnknownElement'', ''blink''),
     (''HTMLVideoElement'', ''video'')]"

text \<open>\<^verbatim>\<open>baseName in tags\<close> and \<^verbatim>\<open>tags[baseName]\<close>, the name already a string.\<close>

definition in_tags :: "env \<Rightarrow> heap \<Rightarrow> string \<Rightarrow> bool" where
  "in_tags env h name = (map_of tags name \<noteq> None \<or> inherits env h name)"

definition tags_at :: "env \<Rightarrow> heap \<Rightarrow> string \<Rightarrow> jsval" where
  "tags_at env h name = (case map_of tags name of Some t \<Rightarrow> JStr t | None \<Rightarrow> inherited_value env h name)"

text \<open>\<^verbatim>\<open>\s\<close> and \<^verbatim>\<open>\S\<close> of a regular expression, on code units below 256.\<close>

definition is_space :: "char \<Rightarrow> bool" where
  "is_space c = ((of_char c :: nat) \<in> {9, 10, 11, 12, 13, 32, 160})"

text \<open>
  The first group of \<^verbatim>\<open>/^function\s(\S+)\(\)\s/\<close> on what follows \<^verbatim>\<open>function\<close>: one
  space, then a run of non-spaces that ends in \<^verbatim>\<open>()\<close> after at least one other character,
  then a space.
\<close>

definition function_name :: "string \<Rightarrow> string option" where
  "function_name s =
     (case s of
        [] \<Rightarrow> None
      | c # rest \<Rightarrow>
          (let run = takeWhile (\<lambda>x. \<not> is_space x) rest;
               after = dropWhile (\<lambda>x. \<not> is_space x) rest
           in if is_space c \<and> after \<noteq> [] \<and> 3 \<le> length run \<and> drop (length run - 2) run = ''()''
              then Some (take (length run - 2) run) else None))"

text \<open>
  The second group of \<^verbatim>\<open>/^\[\S+\s(\S+)\]/\<close> on what follows the bracket: a run of
  non-spaces, one space, then the longest run of non-spaces that a \<^verbatim>\<open>]\<close> follows.
\<close>

definition bracket_name :: "string \<Rightarrow> string option" where
  "bracket_name s =
     (let run1 = takeWhile (\<lambda>x. \<not> is_space x) s;
          after = dropWhile (\<lambda>x. \<not> is_space x) s
      in if run1 = [] \<or> after = [] then None
         else
           (let run2 = takeWhile (\<lambda>x. \<not> is_space x) (tl after);
                upto = dropWhile (\<lambda>x. x \<noteq> CHR '']'') (rev run2)
            in if upto = [] \<or> tl upto = [] then None else Some (rev (tl upto))))"

text \<open>
  \<^verbatim>\<open>(matches = text.match(/^(?:function\s(\S+)\(\)\s|\[\S+\s(\S+)\])/))\<close> and then
  \<^verbatim>\<open>matches[1] || matches[2]\<close>
\<close>

definition match_class_name :: "string \<Rightarrow> string option" where
  "match_class_name s =
     (if take 8 s = ''function'' then function_name (drop 8 s)
      else if take 1 s = ''['' then bracket_name (drop 1 s)
      else None)"

text \<open>\<^verbatim>\<open>base.toString()\<close>\<close>

definition toString :: "heap \<Rightarrow> jsval \<Rightarrow> string result" where
  "toString h v =
     (case v of
        JRef r \<Rightarrow> Inr (source_text (h r))
      | Undefined \<Rightarrow> Inl EngineTypeError
      | Null \<Rightarrow> Inl EngineTypeError
      | _ \<Rightarrow> Inr (to_string v))"

definition getBaseName :: "heap \<Rightarrow> jsval \<Rightarrow> jsval result" where
  "getBaseName h base =
     (if truthy base \<and> truthy (member h base ''prototype'')
         \<and> truthy (member h (member h base ''prototype'') ''_baseName'')
      then Inr (member h (member h base ''prototype'') ''_baseName'')
      else if truthy base \<and> truthy (member h base ''name'') then Inr (member h base ''name'')
      else
        (case toString h base of
           Inl err \<Rightarrow> Inl err
         | Inr s \<Rightarrow> (case match_class_name s of Some name \<Rightarrow> Inr (JStr name) | None \<Rightarrow> Inr Undefined)))"

text \<open>What \<^verbatim>\<open>register\<close> returns: the host's constructor, or
  \<^verbatim>\<open>function(){ return createElement(tag); }\<close>.\<close>

datatype constructor = HostConstructor jsval | ElementFactory string

definition getTagConstructor ::
    "env \<Rightarrow> string \<Rightarrow> jsval \<Rightarrow> nat \<Rightarrow> world \<Rightarrow> constructor result \<times> world" where
  "getTagConstructor env tag baseName protoObj w =
     (let config = \<lparr>prototype = protoObj,
                     extends = (if \<not> strict_eq baseName (JStr ''HTMLElement'')
                                then tags_at env (heap w) (string_of (heap w) baseName) else Undefined),
                     raw_prototype = None\<rparr>
      in if has_document_register env then
           (case doc_register env tag config (heap w) of
              (Inl err, h1) \<Rightarrow> (Inl err, w\<lparr>registry := (registry w)(tag \<mapsto> config), heap := h1\<rparr>)
            | (Inr c, h1) \<Rightarrow> (Inr (HostConstructor c), w\<lparr>registry := (registry w)(tag \<mapsto> config), heap := h1\<rparr>))
         else
           (let config1 = (if \<not> has_proto env
                           then config\<lparr>raw_prototype := Some (props (heap w protoObj))\<rparr> else config)
            in (Inr (ElementFactory tag),
                w\<lparr>registry := (registry w)(tag \<mapsto> config1),
                  selectors := selectors w @
                    [if truthy (extends config1)
                     then string_of (heap w) (extends config1) @ ''[is='' @ [CHR 0x22] @ tag @ [CHR 0x22] @ '']''
                     else tag]\<rparr>)))"

definition restore :: "heap \<Rightarrow> jsval \<Rightarrow> jsval" where
  "restore h extension =
     (if truthy extension \<and> truthy (member h extension ''prototype'')
         \<and> truthy (member h (member h extension ''prototype'') ''_ctor'')
      then member h (member h extension ''prototype'') ''_ctor'' else extension)"

text \<open>
  The four checks come first, in the order of the source, each with its \<^verbatim>\<open>TypeError\<close>; a base
  that is \<^verbatim>\<open>undefined\<close> or \<^verbatim>\<open>null\<close> fails in the second, on \<^verbatim>\<open>baseElement.prototype\<close>. The
  first check is \<^verbatim>\<open>tag in registry\<close>, which also holds for a name that \<^verbatim>\<open>registry\<close> inherits.
  \<^verbatim>\<open>bases\<close> is the array of \<^verbatim>\<open>baseElement\<close> and the extensions, so it goes through
  \<^verbatim>\<open>bases.map(restore)\<close>.
\<close>

definition register ::
    "env \<Rightarrow> string \<Rightarrow> jsval \<Rightarrow> jsval list \<Rightarrow> world \<Rightarrow> constructor result \<times> world" where
  "register env tag baseElement extensions w =
     (if in_registry env w tag then
        (Inl (TypeError (''A widget is already registered with tag '' @ [CHR 0x22] @ tag @ [CHR 0x22] @ ''.'')), w)
      else if baseElement = Undefined \<or> baseElement = Null then (Inl EngineTypeError, w)
      else if \<not> (strict_eq baseElement (JRef (HTMLElement env))
                  \<or> instanceof_HTMLElement (heap w) (member (heap w) baseElement ''prototype'')) then
        (Inl (TypeError ''baseElement must have HTMLElement in its prototype chain''), w)
      else
        (case getBaseName (heap w) baseElement of
           Inl err \<Rightarrow> (Inl err, w)
         | Inr baseName \<Rightarrow>
             if \<not> truthy baseName then (Inl (TypeError ''Cannot determine class of baseElement''), w)
             else if \<not> strict_eq baseName (JStr ''HTMLElement'')
                     \<and> \<not> in_tags env (heap w) (string_of (heap w) baseName) then
               (Inl (TypeError (''baseElement of class '' @ [CHR 0x22] @ string_of (heap w) baseName @ [CHR 0x22]
                                 @ '' is not a recognised descendent of HTMLElement'')), w)
             else
               (case compose env (map (restore (heap w)) (baseElement # extensions)) (heap w) of
                  (Inl err, h1) \<Rightarrow> (Inl err, w\<lparr>heap := h1\<rparr>)
                | (Inr ctor, h1) \<Rightarrow>
                    (if ctor = Undefined \<or> ctor = Null then (Inl EngineTypeError, w\<lparr>heap := h1\<rparr>)
                     else
                       (case shadow h1 (member h1 ctor ''prototype'') ''ctor'' ctor of
                          (Inl err, h2) \<Rightarrow> (Inl err, w\<lparr>heap := h2\<rparr>)
                        | (Inr u, h2) \<Rightarrow>
                            (case shadow h2 (member h2 ctor ''prototype'') ''baseName'' baseName of
                               (Inl err, h3) \<Rightarrow> (Inl err, w\<lparr>heap := h3\<rparr>)
                             | (Inr u, h3) \<Rightarrow>
                                 (case member h3 ctor ''prototype'' of
                                    JRef protoObj \<Rightarrow> getTagConstructor env tag baseName protoObj (w\<lparr>heap := h3\<rparr>)
                                  | _ \<Rightarrow> (Inl EngineTypeError, w\<lparr>heap := h3\<rparr>))))))))"

section \<open>Descriptor factories\<close>

text \<open>
  A property descriptor \<^verbatim>\<open>{get: ..., set: ..., enumerable: ..., configurable: true}\<close>. The
  accessors run with \<^verbatim>\<open>this\<close> bound to an object of the heap.
\<close>

record descriptor =
  get_accessor :: "nat \<Rightarrow> heap \<Rightarrow> jsval result \<times> heap"              \<comment> \<open>\<^verbatim>\<open>get\<close>\<close>
  set_accessor :: "jsval \<Rightarrow> nat \<Rightarrow> heap \<Rightarrow> unit result \<times> heap"     \<comment> \<open>\<^verbatim>\<open>set\<close>\<close>
  enumerable :: jsval
  configurable :: bool

text \<open>\<^verbatim>\<open>enumerable === undefined ? true : enumerable\<close>\<close>

definition default_enumerable :: "jsval \<Rightarrow> jsval" where
  "default_enumerable e = (if strict_eq e Undefined then JBool True else e)"

text \<open>
  \<^verbatim>\<open>if (value) { node.setAttribute(attributeName, value); }
  else { node.removeAttribute(attributeName); }\<close>
  on the value of \<^verbatim>\<open>this[nodeName]\<close>, already found truthy; only an object has the two methods.
\<close>

definition write_attribute :: "heap \<Rightarrow> jsval \<Rightarrow> string \<Rightarrow> jsval \<Rightarrow> unit result \<times> heap" where
  "write_attribute h node attributeName v =
     (case node of
        JRef r \<Rightarrow> (Inr (), if truthy v then setAttribute h r attributeName v else removeAttribute h r attributeName)
      | _ \<Rightarrow> (Inl EngineTypeError, h))"

text \<open>\<^verbatim>\<open>node.getAttribute(attributeName)\<close> on a truthy value.\<close>

definition read_attribute :: "heap \<Rightarrow> jsval \<Rightarrow> string \<Rightarrow> jsval result" where
  "read_attribute h node attributeName =
     (case node of JRef r \<Rightarrow> Inr (getAttribute h r attributeName) | _ \<Rightarrow> Inl EngineTypeError)"

definition getDomAttributeDescriptor :: "string \<Rightarrow> string \<Rightarrow> jsval \<Rightarrow> descriptor" where
  "getDomAttributeDescriptor nodeName' attributeName enumerable' =
     \<lparr>get_accessor = (\<lambda>this h.
        if truthy (get_prop h this nodeName')
        then (read_attribute h (get_prop h this nodeName') attributeName, h)
        else (Inr Null, h)),
      set_accessor = (\<lambda>v this h.
        if truthy (get_prop h this nodeName')
        then write_attribute h (get_prop h this nodeName') attributeName v
        else (Inl (Error (''Cannot set value of attribute '' @ [CHR 0x22] @ attributeName @ [CHR 0x22]
                           @ '' on undefined node.'')), h)),
      enumerable = default_enumerable enumerable',
      configurable = True\<rparr>"

definition getShadowDomAttributeDescriptor :: "string \<Rightarrow> string \<Rightarrow> jsval \<Rightarrow> descriptor" where
  "getShadowDomAttributeDescriptor nodeName' attributeName enumerable' =
     (let shadowName = nodeName' @ ''_'' @ toCamelCase attributeName;
          shadowPropertyName = ''_'' @ shadowName
      in \<lparr>get_accessor = (\<lambda>this h.
           case (if truthy (get_prop h this nodeName')
                 then read_attribute h (get_prop h this nodeName') attributeName
                 else Inr (js_or (get_prop h this shadowPropertyName) Null)) of
             Inl err \<Rightarrow> (Inl err, h)
           | Inr v \<Rightarrow>
               (if \<not> strict_eq v (get_prop h this shadowPropertyName) then
                  (if strict_eq v Null \<and> has_prop h this shadowPropertyName
                   then (Inr (get_prop h this shadowPropertyName), h)
                   else shadow h (JRef this) shadowName v)
                else (Inr v, h))),
         set_accessor = (\<lambda>v this h.
           case (if \<not> strict_eq v (get_prop h this shadowPropertyName)
                 then shadow h (JRef this) shadowName v else (Inr v, h)) of
             (Inl err, h1) \<Rightarrow> (Inl err, h1)
           | (Inr u, h1) \<Rightarrow>
               (if truthy (get_prop h1 this nodeName')
                then write_attribute h1 (get_prop h1 this nodeName') attributeName v
                else (Inr (), h1))),
         enumerable = default_enumerable enumerable',
         configurable = True\<rparr>)"

definition getShadowCalculatedDescriptor :: "env \<Rightarrow> string \<Rightarrow> jsval \<Rightarrow> jsval \<Rightarrow> jsval \<Rightarrow> descriptor" where
  "getShadowCalculatedDescriptor env name getter setter enumerable' =
     (let shadowName = ''_'' @ name
      in \<lparr>get_accessor = (\<lambda>this h.
           case call_function env getter this [JStr name, get_prop h this shadowName] h of
             (Inl err, h1) \<Rightarrow> (Inl err, h1)
           | (Inr v, h1) \<Rightarrow>
               (if \<not> strict_eq v (get_prop h1 this shadowName) then shadow h1 (JRef this) name v
                else (Inr v, h1))),
         set_accessor = (\<lambda>v this h.
           case call_function env setter this [JStr name, v] h of
             (Inl err, h1) \<Rightarrow> (Inl err, h1)
           | (Inr v1, h1) \<Rightarrow>
               (case shadow h1 (JRef this) name v1 of
                  (Inl err, h2) \<Rightarrow> (Inl err, h2)
                | (Inr u, h2) \<Rightarrow> (Inr (), h2))),
         enumerable = default_enumerable enumerable',
         configurable = True\<rparr>)"

text \<open>
  \<^verbatim>\<open>delegate[propertyName] = value\<close> on a truthy value: an own property of an object; the
  module is in strict mode, where a property of a primitive cannot be written.
\<close>

definition assign_member :: "heap \<Rightarrow> jsval \<Rightarrow> string \<Rightarrow> jsval \<Rightarrow> unit result \<times> heap" where
  "assign_member h target k v =
     (case target of JRef r \<Rightarrow> (Inr (), set_prop h r k v) | _ \<Rightarrow> (Inl EngineTypeError, h))"

definition getDelegateDescriptor :: "string \<Rightarrow> string \<Rightarrow> jsval \<Rightarrow> descriptor" where
  "getDelegateDescriptor delegateName propertyName enumerable' =
     \<lparr>get_accessor = (\<lambda>this h.
        if truthy (get_prop h this delegateName)
        then (Inr (member h (get_prop h this delegateName) propertyName), h)
        else (Inr Undefined, h)),
      set_accessor = (\<lambda>v this h.
        if truthy (get_prop h this delegateName)
        then assign_member h (get_prop h this delegateName) propertyName v
        else (Inl (Error (''Cannot set value of property '' @ [CHR 0x22] @ propertyName @ [CHR 0x22]
                           @ '' on undefined delegate.'')), h)),
      enumerable = default_enumerable enumerable',
      configurable = True\<rparr>"

section \<open>Observations and reference definitions\<close>

text \<open>How often a callback of a node was invoked, and how often the host was queried.\<close>

fun invocations :: "string \<Rightarrow> nat \<Rightarrow> event list \<Rightarrow> nat" where
  "invocations name element [] = 0"
| "invocations name element (Invoked n e b # evs) =
     (if n = name \<and> e = element then Suc (invocations name element evs) else invocations name element evs)"
| "invocations name element (ev # evs) = invocations name element evs"

fun queries :: "event list \<Rightarrow> nat" where
  "queries [] = 0"
| "queries (Queried r s # evs) = Suc (queries evs)"
| "queries (ev # evs) = queries evs"

text \<open>
  The specification's wording of what \<^verbatim>\<open>parse\<close> does with the matches: \<^verbatim>\<open>upgrade\<close> on each
  one, in the order of the list; an exception of \<^verbatim>\<open>upgrade\<close> propagates.
\<close>

fun upgrade_in_order :: "env \<Rightarrow> nat list \<Rightarrow> world \<Rightarrow> unit result \<times> world" where
  "upgrade_in_order env [] w = (Inr (), w)"
| "upgrade_in_order env (node # nodes) w =
     (case upgrade env node w of
        (Inl err, w') \<Rightarrow> (Inl err, w')
      | (Inr u, w') \<Rightarrow> upgrade_in_order env nodes w')"

text \<open>
  The two worlds in which \<^verbatim>\<open>upgrade\<close> looks a callback up: after the prototype mutation
  and the marking, where it tests \<^verbatim>\<open>element.readyCallback\<close>; and after the step of
  \<^verbatim>\<open>readyCallback\<close>, where it tests \<^verbatim>\<open>element.insertedCallback\<close>.
\<close>

definition installed_and_marked :: "env \<Rightarrow> nat \<Rightarrow> widget \<Rightarrow> world \<Rightarrow> world" where
  "installed_and_marked env element wd w = mark_upgraded element (snd (redefine_prototype env element wd w))"

definition after_ready :: "env \<Rightarrow> nat \<Rightarrow> widget \<Rightarrow> world \<Rightarrow> world" where
  "after_ready env element wd w = snd (ready_step env element wd (installed_and_marked env element wd w))"

text \<open>No function, called on the node, clears a marker that the node carries.\<close>

definition keeps_marker :: "env \<Rightarrow> nat \<Rightarrow> bool" where
  "keeps_marker env element =
     (\<forall>f args h. truthy (get_prop h element ''__upgraded__'')
        \<longrightarrow> truthy (get_prop (snd (apply_fun env f element args h)) element ''__upgraded__''))"

section \<open>An example document\<close>

definition plain_object :: jsobject where
  "plain_object =
     \<lparr>props = Map.empty, proto = None, inherited = Map.empty, nodeName = [],
      attributes = Map.empty, in_document = False, html_element = False, callable = False,
      source_text = ''[object Object]''\<rparr>"

definition function_object :: jsobject where
  "function_object = plain_object\<lparr>callable := True, source_text := ''function () { }''\<rparr>"

definition node_object :: "string \<Rightarrow> jsobject" where
  "node_object name = plain_object\<lparr>nodeName := name, in_document := True, html_element := True\<rparr>"

text \<open>
  Nodes 0 to 9 are in the document: \<^verbatim>\<open><button is="pd-button">\<close>, \<^verbatim>\<open><button is="PD-Button">\<close>,
  \<^verbatim>\<open><pd-panel>\<close> with a title node, a \<^verbatim>\<open><div>\<close>, one node each of three further widgets,
  and \<^verbatim>\<open><pd-panel is="">\<close>; node 15 is \<^verbatim>\<open><div is="constructor">\<close>. Objects 10 to 14 are the
  widgets' prototypes, 20 to 31 functions, 40 and 41 the constructor \<^verbatim>\<open>HTMLButtonElement\<close> and
  its prototype. Object 60 is \<^verbatim>\<open>Object.prototype\<close>, 61 the function \<^verbatim>\<open>Object\<close> and 62 stands
  for the methods of \<^verbatim>\<open>Object.prototype\<close>.
\<close>

definition example_heap :: heap where
  "example_heap =
     (\<lambda>r. plain_object)
       (0 := (node_object ''BUTTON'')\<lparr>attributes := [''is'' \<mapsto> ''pd-button'']\<rparr>,
        3 := (node_object ''BUTTON'')\<lparr>attributes := [''is'' \<mapsto> ''PD-Button'']\<rparr>,
        4 := (node_object ''PD-PANEL'')\<lparr>props := [''titleNode'' \<mapsto> JRef 5]\<rparr>,
        5 := node_object ''DIV'',
        6 := node_object ''X-FORGETFUL'',
        7 := node_object ''X-THROWING'',
        8 := node_object ''X-RESET'',
        9 := (node_object ''PD-PANEL'')\<lparr>attributes := [''is'' \<mapsto> '''']\<rparr>,
        15 := (node_object ''DIV'')\<lparr>attributes := [''is'' \<mapsto> ''constructor'']\<rparr>,
        10 := plain_object\<lparr>props := [''readyCallback'' \<mapsto> JRef 20, ''insertedCallback'' \<mapsto> JRef 21]\<rparr>,
        11 := plain_object,
        12 := plain_object\<lparr>props := [''readyCallback'' \<mapsto> JRef 22, ''insertedCallback'' \<mapsto> JRef 21]\<rparr>,
        13 := plain_object\<lparr>props := [''readyCallback'' \<mapsto> JRef 23, ''insertedCallback'' \<mapsto> JRef 21]\<rparr>,
        14 := plain_object\<lparr>props := [''readyCallback'' \<mapsto> JRef 24, ''insertedCallback'' \<mapsto> JRef 21]\<rparr>,
        20 := function_object, 21 := function_object, 22 := function_object,
        23 := function_object, 24 := function_object, 30 := function_object, 31 := function_object,
        40 := function_object\<lparr>props := [''prototype'' \<mapsto> JRef 41, ''name'' \<mapsto> JStr ''HTMLButtonElement'']\<rparr>,
        41 := plain_object\<lparr>html_element := True\<rparr>,
        60 := plain_object
                \<lparr>props := [''constructor'' \<mapsto> JRef 61, ''toString'' \<mapsto> JRef 62, ''toLocaleString'' \<mapsto> JRef 62,
                           ''valueOf'' \<mapsto> JRef 62, ''hasOwnProperty'' \<mapsto> JRef 62, ''isPrototypeOf'' \<mapsto> JRef 62,
                           ''propertyIsEnumerable'' \<mapsto> JRef 62]\<rparr>,
        61 := function_object
                \<lparr>props := [''prototype'' \<mapsto> JRef 60, ''name'' \<mapsto> JStr ''Object''],
                 source_text := ''function Object() { [native code] }''\<rparr>,
        62 := function_object\<lparr>source_text := ''function () { [native code] }''\<rparr>)"

definition example_world :: world where
  "example_world =
     \<lparr>registry =
        [''pd-button'' \<mapsto> \<lparr>prototype = 10, extends = JStr ''button'', raw_prototype = None\<rparr>,
         ''pd-panel'' \<mapsto> \<lparr>prototype = 11, extends = Undefined, raw_prototype = None\<rparr>,
         ''x-forgetful'' \<mapsto> \<lparr>prototype = 12, extends = Undefined, raw_prototype = None\<rparr>,
         ''x-throwing'' \<mapsto> \<lparr>prototype = 13, extends = Undefined, raw_prototype = None\<rparr>,
         ''x-reset'' \<mapsto> \<lparr>prototype = 14, extends = Undefined, raw_prototype = None\<rparr>],
      selectors =
        [''button[is='' @ [CHR 0x22] @ ''pd-button'' @ [CHR 0x22] @ '']'', ''pd-panel'',
         ''x-forgetful'', ''x-throwing'', ''x-reset''],
      heap = example_heap,
      trace = []\<rparr>"

text \<open>
  Function 20 sets a label and 21 notes the insertion; 22 clears the marker of its node;
  23 throws after a partial update; 24 clears the marker and throws; 30 is a getter and
  31 a setter that lower-cases its input.
\<close>

definition example_env :: env where
  "example_env =
     \<lparr>has_document_register = False,
      has_proto = True,
      apply_fun = (\<lambda>f this args h.
        if f = 20 then (Inr Undefined, set_prop h this ''label'' (JStr ''OK''))
        else if f = 21 then (Inr Undefined, set_prop h this ''inserted'' (JBool True))
        else if f = 22 then (Inr Undefined, set_prop h this ''__upgraded__'' (JBool False))
        else if f = 23 then (Inl (Thrown (JStr ''not ready'')), set_prop h this ''label'' (JStr ''partial''))
        else if f = 24 then (Inl (Thrown (JStr ''not ready'')), set_prop h this ''__upgraded__'' (JBool False))
        else if f = 30 then (Inr (JStr ''computed''), h)
        else if f = 31 then (case args of [n, v] \<Rightarrow> (Inr (JStr (toLowerCase (to_string v))), h)
                                          | _ \<Rightarrow> (Inr Undefined, h))
        else (Inr Undefined, h)),
      doc = 1,
      HTMLElement = 2,
      Object_prototype = 60,
      defineProperties = (\<lambda>element table h. (Inr (), h)),
      querySelectorAll = (\<lambda>root sel h. if sel = [] then Inl (Thrown (JStr ''SyntaxError'')) else Inr [0, 4]),
      doc_createElement = (\<lambda>tag h. (Inr 50, h(50 := node_object tag))),
      doc_register = (\<lambda>tag config h. (Inr (JRef 42), h)),
      compose = (\<lambda>bases h.
        (Inr (JRef 42),
         h(42 := function_object\<lparr>props := [''prototype'' \<mapsto> JRef 43]\<rparr>,
           43 := plain_object\<lparr>html_element := True, props := [''readyCallback'' \<mapsto> JRef 20]\<rparr>)))\<rparr>"

text \<open>The same collaborators, with functions that only ever set a label.\<close>

definition tidy_env :: env where
  "tidy_env = example_env\<lparr>apply_fun := (\<lambda>f this args h. (Inr Undefined, set_prop h this ''label'' (JStr ''OK'')))\<rparr>"

section \<open>Basic facts\<close>

lemma get_prop_set_prop_same [simp]: "get_prop (set_prop h r k v) r k = v"
  by (simp add: get_prop_def set_prop_def)

lemma get_prop_set_prop_other [simp]: "k \<noteq> k' \<Longrightarrow> get_prop (set_prop h r k' v) x k = get_prop h x k"
  by (simp add: get_prop_def set_prop_def split: option.splits)

lemma has_prop_set_prop_same [simp]: "has_prop (set_prop h r k v) r k"
  by (simp add: has_prop_def set_prop_def)

lemma has_prop_if_defined: "get_prop h r k \<noteq> Undefined \<Longrightarrow> has_prop h r k"
  by (auto simp: get_prop_def has_prop_def split: option.splits)

lemma get_prop_setAttribute [simp]: "get_prop (setAttribute h r a v) x k = get_prop h x k"
  by (simp add: get_prop_def setAttribute_def split: option.splits)

lemma get_prop_removeAttribute [simp]: "get_prop (removeAttribute h r a) x k = get_prop h x k"
  by (simp add: get_prop_def removeAttribute_def split: option.splits)

lemma getAttribute_setAttribute [simp]: "getAttribute (setAttribute h r a v) r a = JStr (to_string v)"
  by (simp add: getAttribute_def setAttribute_def)

lemma getAttribute_removeAttribute [simp]: "getAttribute (removeAttribute h r a) r a = Null"
  by (simp add: getAttribute_def removeAttribute_def)

lemma attributes_removeAttribute: "attributes (removeAttribute h r a r) a = None"
  by (simp add: removeAttribute_def)

lemma shadow_name_differs: "''_'' @ n @ ''_'' @ s \<noteq> n"
proof
  assume "''_'' @ n @ ''_'' @ s = n"
  then have "length (''_'' @ n @ ''_'' @ s) = length n" by simp
  then show False by simp
qed

text \<open>
  Lower-casing reaches the accented capitals: \<^verbatim>\<open>E\<close> with acute (201) becomes 233, and the
  multiplication sign (215) stays.
\<close>

lemma toLowerCase_beyond_ascii:
  "toLowerCase [CHR ''P'', CHR 0xC9, CHR ''-'', CHR 0xD7, CHR ''x''] = [CHR ''p'', CHR 0xE9, CHR ''-'', CHR 0xD7, CHR ''x'']"
  by code_simp

lemma invocations_append [simp]:
  "invocations name element (xs @ ys) = invocations name element xs + invocations name element ys"
  by (induction name element xs rule: invocations.induct) auto

lemma queries_append [simp]: "queries (xs @ ys) = queries xs + queries ys"
  by (induction xs rule: queries.induct) auto

section \<open>Properties of the descriptor factories\<close>

subsection \<open>Attribute mirroring\<close>

text \<open>
  The empty string is a string and is falsy: the setter removes the attribute for it, and
  the getter then yields \<^verbatim>\<open>null\<close>, not the empty string. Node 4 has the title node 5.
\<close>

theorem dom_attribute_empty_string_counterexample:
  "get_prop example_heap 4 ''titleNode'' = JRef 5
   \<and> fst (set_accessor (getDomAttributeDescriptor ''titleNode'' ''title'' Undefined) (JStr []) 4 example_heap) = Inr ()
   \<and> fst (get_accessor (getDomAttributeDescriptor ''titleNode'' ''title'' Undefined) 4
            (snd (set_accessor (getDomAttributeDescriptor ''titleNode'' ''title'' Undefined) (JStr []) 4 example_heap)))
       = Inr Null"
  by code_simp

text \<open>
  \<^bold>\<open>C3\<close>, as the code has it. For the attribute-mirrored descriptor with a present sub-node:
  for every non-empty string \<open>V\<close>, setting the property to \<open>V\<close> and reading it back
  yields \<open>V\<close>; and setting the property to a falsy value (the empty string is one)
  removes the underlying attribute, after which reading yields \<^verbatim>\<open>null\<close>.
\<close>

theorem dom_attribute_round_trip:
  assumes "get_prop h this nodeName' = JRef r"
  shows "(V \<noteq> [] \<longrightarrow>
            (\<exists>h1. set_accessor (getDomAttributeDescriptor nodeName' attributeName e) (JStr V) this h = (Inr (), h1)
                \<and> get_accessor (getDomAttributeDescriptor nodeName' attributeName e) this h1 = (Inr (JStr V), h1)))
       \<and> (\<not> truthy v \<longrightarrow>
            (\<exists>h1. set_accessor (getDomAttributeDescriptor nodeName' attributeName e) v this h = (Inr (), h1)
                \<and> attributes (h1 r) attributeName = None
                \<and> get_accessor (getDomAttributeDescriptor nodeName' attributeName e) this h1 = (Inr Null, h1)))"
  using assms
  by (simp add: getDomAttributeDescriptor_def write_attribute_def read_attribute_def attributes_removeAttribute)

theorem dom_attribute_round_trip_witness:
  "get_prop example_heap 4 ''titleNode'' = JRef 5
   \<and> (\<exists>h1. set_accessor (getDomAttributeDescriptor ''titleNode'' ''title'' Undefined) (JStr ''Hello'') 4 example_heap = (Inr (), h1)
          \<and> get_accessor (getDomAttributeDescriptor ''titleNode'' ''title'' Undefined) 4 h1 = (Inr (JStr ''Hello''), h1))
   \<and> (\<exists>h1. set_accessor (getDomAttributeDescriptor ''titleNode'' ''title'' Undefined) (JStr []) 4 example_heap = (Inr (), h1)
          \<and> attributes (h1 5) ''title'' = None
          \<and> get_accessor (getDomAttributeDescriptor ''titleNode'' ''title'' Undefined) 4 h1 = (Inr Null, h1))"
proof -
  have p: "get_prop example_heap 4 ''titleNode'' = JRef 5" by code_simp
  from dom_attribute_round_trip [OF p, where V = "''Hello''" and v = "JStr []"
      and attributeName = "''title''" and e = Undefined]
  show ?thesis using p by simp
qed

subsection \<open>Attribute mirroring with a shadow value\<close>

text \<open>
  Node 0 has no label node and no shadow property. Setting the property to
  \<^verbatim>\<open>undefined\<close> stores nothing, since the missing shadow property already reads as
  \<^verbatim>\<open>undefined\<close>; the getter then finds no shadow property and yields \<^verbatim>\<open>null\<close>.
\<close>

theorem shadow_attribute_undefined_counterexample:
  "\<not> truthy (get_prop example_heap 0 ''labelNode'')
   \<and> fst (set_accessor (getShadowDomAttributeDescriptor ''labelNode'' ''aria-label'' Undefined) Undefined 0 example_heap) = Inr ()
   \<and> fst (get_accessor (getShadowDomAttributeDescriptor ''labelNode'' ''aria-label'' Undefined) 0
            (snd (set_accessor (getShadowDomAttributeDescriptor ''labelNode'' ''aria-label'' Undefined) Undefined 0 example_heap)))
       = Inr Null"
  by code_simp

text \<open>
  \<^bold>\<open>C8\<close>, as the code has it. For the shadow-attribute-mirrored descriptor, setting the
  property to a value while the sub-node is absent and then reading the property (still
  with the sub-node absent) yields the previously set value, the shadow property having
  retained it, for every value but \<^verbatim>\<open>undefined\<close>, and for \<^verbatim>\<open>undefined\<close> too when the object
  already has the shadow property.
\<close>

theorem shadow_attribute_persistence:
  assumes absent: "\<not> truthy (get_prop h this nodeName')"
      and defined: "v \<noteq> Undefined \<or> has_prop h this (''_'' @ nodeName' @ ''_'' @ toCamelCase attributeName)"
  shows "\<exists>h1. set_accessor (getShadowDomAttributeDescriptor nodeName' attributeName e) v this h = (Inr (), h1)
            \<and> \<not> truthy (get_prop h1 this nodeName')
            \<and> get_prop h1 this (''_'' @ nodeName' @ ''_'' @ toCamelCase attributeName) = v
            \<and> fst (get_accessor (getShadowDomAttributeDescriptor nodeName' attributeName e) this h1) = Inr v"
proof -
  let ?spn = "''_'' @ nodeName' @ ''_'' @ toCamelCase attributeName"
  have ne: "nodeName' \<noteq> ?spn"
    using shadow_name_differs [of nodeName' "toCamelCase attributeName"] by simp
  show ?thesis
  proof (cases "strict_eq v (get_prop h this ?spn)")
    case True
    then have eq: "get_prop h this ?spn = v" and nn: "v \<noteq> JNaN"
      by (auto simp: strict_eq_def)
    have set: "set_accessor (getShadowDomAttributeDescriptor nodeName' attributeName e) v this h = (Inr (), h)"
      using True absent by (simp add: getShadowDomAttributeDescriptor_def Let_def)
    have get: "fst (get_accessor (getShadowDomAttributeDescriptor nodeName' attributeName e) this h) = Inr v"
      using absent eq nn defined has_prop_if_defined [of h this ?spn]
      by (cases v) (auto simp: getShadowDomAttributeDescriptor_def Let_def js_or_def strict_eq_def shadow_def)
    from set get absent eq show ?thesis by simp
  next
    case False
    let ?h1 = "set_prop h this ?spn v"
    have set: "set_accessor (getShadowDomAttributeDescriptor nodeName' attributeName e) v this h = (Inr (), ?h1)"
      using False absent ne by (simp add: getShadowDomAttributeDescriptor_def Let_def shadow_def)
    have absent1: "\<not> truthy (get_prop ?h1 this nodeName')"
      using absent ne by simp
    have get: "fst (get_accessor (getShadowDomAttributeDescriptor nodeName' attributeName e) this ?h1) = Inr v"
      using absent1
      by (cases v) (auto simp: getShadowDomAttributeDescriptor_def Let_def js_or_def strict_eq_def shadow_def)
    from set get absent1 show ?thesis by simp
  qed
qed

theorem shadow_attribute_persistence_witness:
  "\<not> truthy (get_prop example_heap 0 ''labelNode'')
   \<and> (\<exists>h1. set_accessor (getShadowDomAttributeDescriptor ''labelNode'' ''aria-label'' Undefined) (JStr ''Save'') 0 example_heap = (Inr (), h1)
          \<and> \<not> truthy (get_prop h1 0 ''labelNode'')
          \<and> get_prop h1 0 ''_labelNode_ariaLabel'' = JStr ''Save''
          \<and> fst (get_accessor (getShadowDomAttributeDescriptor ''labelNode'' ''aria-label'' Undefined) 0 h1) = Inr (JStr ''Save''))"
proof -
  have a: "\<not> truthy (get_prop example_heap 0 ''labelNode'')" by code_simp
  have c: "toCamelCase ''aria-label'' = ''ariaLabel''" by code_simp
  from shadow_attribute_persistence [OF a, where v = "JStr ''Save''" and attributeName = "''aria-label''"
      and e = Undefined]
  show ?thesis using a c by simp
qed

subsection \<open>Computed values with a shadow\<close>

text \<open>
  \<^bold>\<open>C7\<close>. For the computed/shadowed descriptor, every get calls the user getter with the
  property name and the last shadowed value and stores the result as the new shadow value
  only if it differs (\<^verbatim>\<open>!==\<close>) from the shadow value, while every set calls the user setter
  with the property name and the new value and then stores the setter's return value, not
  the raw input, as the shadow value, whatever it is. An exception of either function
  propagates and nothing is stored. So after a get the shadow value is the value that the
  get returned, and after a set it is what the setter returned.
\<close>

theorem shadow_calculated_get_and_set:
  assumes "callable (h g)" and "callable (h s)"
  shows "get_accessor (getShadowCalculatedDescriptor env name (JRef g) (JRef s) e) this h =
           (case apply_fun env g this [JStr name, get_prop h this (''_'' @ name)] h of
              (Inl err, h1) \<Rightarrow> (Inl err, h1)
            | (Inr v, h1) \<Rightarrow>
                (Inr v, if strict_eq v (get_prop h1 this (''_'' @ name)) then h1
                        else set_prop h1 this (''_'' @ name) v))
       \<and> set_accessor (getShadowCalculatedDescriptor env name (JRef g) (JRef s) e) x this h =
           (case apply_fun env s this [JStr name, x] h of
              (Inl err, h1) \<Rightarrow> (Inl err, h1)
            | (Inr v, h1) \<Rightarrow> (Inr (), set_prop h1 this (''_'' @ name) v))
       \<and> (\<forall>v h1. get_accessor (getShadowCalculatedDescriptor env name (JRef g) (JRef s) e) this h = (Inr v, h1)
              \<longrightarrow> get_prop h1 this (''_'' @ name) = v)
       \<and> (\<forall>h1. set_accessor (getShadowCalculatedDescriptor env name (JRef g) (JRef s) e) x this h = (Inr (), h1)
              \<longrightarrow> fst (apply_fun env s this [JStr name, x] h) = Inr (get_prop h1 this (''_'' @ name)))"
proof -
  let ?D = "getShadowCalculatedDescriptor env name (JRef g) (JRef s) e"
  have get: "get_accessor ?D this h =
           (case apply_fun env g this [JStr name, get_prop h this (''_'' @ name)] h of
              (Inl err, h1) \<Rightarrow> (Inl err, h1)
            | (Inr v, h1) \<Rightarrow>
                (Inr v, if strict_eq v (get_prop h1 this (''_'' @ name)) then h1
                        else set_prop h1 this (''_'' @ name) v))"
    using assms
    by (auto simp: getShadowCalculatedDescriptor_def Let_def call_function_def shadow_def
             split: prod.splits sum.splits)
  have set: "set_accessor ?D x this h =
           (case apply_fun env s this [JStr name, x] h of
              (Inl err, h1) \<Rightarrow> (Inl err, h1)
            | (Inr v, h1) \<Rightarrow> (Inr (), set_prop h1 this (''_'' @ name) v))"
    using assms
    by (auto simp: getShadowCalculatedDescriptor_def Let_def call_function_def shadow_def
             split: prod.splits sum.splits)
  have cached: "\<forall>v h1. get_accessor ?D this h = (Inr v, h1) \<longrightarrow> get_prop h1 this (''_'' @ name) = v"
  proof (intro allI impI)
    fix v h1
    assume a: "get_accessor ?D this h = (Inr v, h1)"
    obtain r0 h0 where c: "apply_fun env g this [JStr name, get_prop h this (''_'' @ name)] h = (r0, h0)"
      by (cases "apply_fun env g this [JStr name, get_prop h this (''_'' @ name)] h")
    from a c show "get_prop h1 this (''_'' @ name) = v"
      unfolding get by (cases r0) (auto simp: strict_eq_def split: if_splits)
  qed
  have stored: "\<forall>h1. set_accessor ?D x this h = (Inr (), h1)
      \<longrightarrow> fst (apply_fun env s this [JStr name, x] h) = Inr (get_prop h1 this (''_'' @ name))"
  proof (intro allI impI)
    fix h1
    assume a: "set_accessor ?D x this h = (Inr (), h1)"
    obtain r0 h0 where c: "apply_fun env s this [JStr name, x] h = (r0, h0)"
      by (cases "apply_fun env s this [JStr name, x] h")
    from a c show "fst (apply_fun env s this [JStr name, x] h) = Inr (get_prop h1 this (''_'' @ name))"
      unfolding set by (cases r0) auto
  qed
  from get set cached stored show ?thesis by blast
qed

theorem shadow_calculated_get_and_set_witness:
  "callable (example_heap 30) \<and> callable (example_heap 31)
   \<and> get_accessor (getShadowCalculatedDescriptor example_env ''size'' (JRef 30) (JRef 31) Undefined) 4 example_heap =
       (Inr (JStr ''computed''), set_prop example_heap 4 ''_size'' (JStr ''computed''))
   \<and> set_accessor (getShadowCalculatedDescriptor example_env ''size'' (JRef 30) (JRef 31) Undefined)
         (JStr ''LARGE'') 4 example_heap =
       (Inr (), set_prop example_heap 4 ''_size'' (JStr ''large''))
   \<and> get_prop (set_prop example_heap 4 ''_size'' (JStr ''computed'')) 4 ''_size'' = JStr ''computed''"
proof -
  have g: "callable (example_heap 30)" by code_simp
  have s: "callable (example_heap 31)" by code_simp
  have u: "get_prop example_heap 4 ''_size'' = Undefined" by code_simp
  have l: "toLowerCase ''LARGE'' = ''large''" by code_simp
  note t = shadow_calculated_get_and_set [OF g s, where env = example_env and name = "''size''"
      and this = 4 and x = "JStr ''LARGE''" and e = Undefined]
  from t [THEN conjunct1]
  have a: "get_accessor (getShadowCalculatedDescriptor example_env ''size'' (JRef 30) (JRef 31) Undefined) 4 example_heap =
       (Inr (JStr ''computed''), set_prop example_heap 4 ''_size'' (JStr ''computed''))"
    using u by (simp add: example_env_def strict_eq_def)
  from t [THEN conjunct2, THEN conjunct1]
  have b: "set_accessor (getShadowCalculatedDescriptor example_env ''size'' (JRef 30) (JRef 31) Undefined)
         (JStr ''LARGE'') 4 example_heap =
       (Inr (), set_prop example_heap 4 ''_size'' (JStr ''large''))"
    using l by (simp add: example_env_def)
  from t [THEN conjunct2, THEN conjunct2, THEN conjunct1, THEN spec, THEN spec, THEN mp, OF a]
  have c: "get_prop (set_prop example_heap 4 ''_size'' (JStr ''computed'')) 4 ''_size'' = JStr ''computed''"
    by simp
  from g s a b c show ?thesis by blast
qed

subsection \<open>Delegation\<close>

text \<open>
  \<^bold>\<open>C9\<close>. For the delegating descriptor, setting the property when the named delegate
  property of \<^verbatim>\<open>this\<close> is absent (or holds any other falsy value) throws the error
  \<^verbatim>\<open>Cannot set value of property "..." on undefined delegate.\<close> and changes no object: in
  particular it creates no delegate sub-object, and the property still reads as
  \<^verbatim>\<open>undefined\<close>.
\<close>

theorem delegate_set_absent:
  assumes "\<not> truthy (get_prop h this delegateName)"
  shows "set_accessor (getDelegateDescriptor delegateName propertyName e) v this h =
           (Inl (Error (''Cannot set value of property '' @ [CHR 0x22] @ propertyName @ [CHR 0x22]
                         @ '' on undefined delegate.'')), h)
       \<and> get_accessor (getDelegateDescriptor delegateName propertyName e) this h = (Inr Undefined, h)"
  using assms by (simp add: getDelegateDescriptor_def)

theorem delegate_set_absent_witness:
  "\<not> truthy (get_prop example_heap 0 ''labelNode'')
   \<and> set_accessor (getDelegateDescriptor ''labelNode'' ''textContent'' Undefined) (JStr ''Save'') 0 example_heap =
       (Inl (Error (''Cannot set value of property '' @ [CHR 0x22] @ ''textContent'' @ [CHR 0x22]
                     @ '' on undefined delegate.'')), example_heap)
   \<and> get_accessor (getDelegateDescriptor ''labelNode'' ''textContent'' Undefined) 0 example_heap
       = (Inr Undefined, example_heap)"
proof -
  have a: "\<not> truthy (get_prop example_heap 0 ''labelNode'')" by code_simp
  from delegate_set_absent [OF a, where propertyName = "''textContent''" and e = Undefined
      and v = "JStr ''Save''"]
  show ?thesis using a by simp
qed

section \<open>Properties of upgrade\<close>

subsection \<open>The steps and what they leave in the trace\<close>

lemma upgrade_marked:
  "truthy (get_prop (heap w) element ''__upgraded__'') \<Longrightarrow> upgrade env element w = (Inr (), w)"
  by (simp add: upgrade_def)

lemma upgrade_unmatched:
  "registry w (registry_key (heap w) element) = None \<Longrightarrow>
   \<not> truthy (inherited_value env (heap w) (registry_key (heap w) element)) \<Longrightarrow>
     upgrade env element w = (Inr (), w)"
  by (simp add: upgrade_def)

lemma upgrade_matched:
  "\<not> truthy (get_prop (heap w) element ''__upgraded__'') \<Longrightarrow>
   registry w (registry_key (heap w) element) = Some wd \<Longrightarrow>
     upgrade env element w =
       (case redefine_prototype env element wd w of
          (Inl err, w1) \<Rightarrow> (Inl err, w1)
        | (Inr u, w1) \<Rightarrow>
            (case ready_step env element wd (mark_upgraded element w1) of
               (Inl err, w3) \<Rightarrow> (Inl err, w3)
             | (Inr u, w3) \<Rightarrow> inserted_step env element wd w3))"
  by (simp add: upgrade_def)

lemma redefine_prototype_trace:
  "redefine_prototype env element wd w = (Inr u, w1) \<Longrightarrow>
     trace w1 = trace w @ [if has_proto env then ProtoAssigned element (prototype wd) else PropertiesDefined element]"
  by (auto simp: redefine_prototype_def split: if_splits option.splits)

lemma redefine_prototype_queries:
  "redefine_prototype env element wd w = (r, w1) \<Longrightarrow> queries (trace w1) = queries (trace w)"
  by (auto simp: redefine_prototype_def split: if_splits option.splits)

lemma redefine_prototype_inherited_queries:
  "redefine_prototype_inherited env element v w = (r, w1) \<Longrightarrow> queries (trace w1) = queries (trace w)"
  by (auto simp: redefine_prototype_inherited_def split: if_splits jsval.splits prod.splits sum.splits)

lemma mark_upgraded_marker [simp]:
  "get_prop (heap (mark_upgraded element w)) element ''__upgraded__'' = JBool True"
  by (simp add: mark_upgraded_def)

lemma mark_upgraded_trace [simp]: "trace (mark_upgraded element w) = trace w @ [Marked element]"
  by (simp add: mark_upgraded_def)

lemma mark_upgraded_proto:
  "proto (heap (mark_upgraded element w) element) = proto (heap w element)"
  by (simp add: mark_upgraded_def set_prop_def)

lemma invoke_callback_with_trace_any:
  "invoke_callback_with env name element arg w = (r, w1) \<Longrightarrow>
     trace w1 = trace w
     \<or> trace w1 = trace w @ [Invoked name element (truthy (get_prop (heap w) element ''__upgraded__''))]"
  by (auto simp: invoke_callback_with_def Let_def split: jsval.splits if_splits prod.splits sum.splits)

lemma invoke_callback_with_queries:
  "invoke_callback_with env name element arg w = (r, w1) \<Longrightarrow> queries (trace w1) = queries (trace w)"
  by (auto dest!: invoke_callback_with_trace_any)

lemma invoke_callback_trace_ok:
  "invoke_callback env name element wd w = (Inr u, w1) \<Longrightarrow>
     trace w1 = trace w @ [Invoked name element (truthy (get_prop (heap w) element ''__upgraded__''))]"
  by (auto simp: invoke_callback_def invoke_callback_with_def Let_def
           split: jsval.splits if_splits prod.splits sum.splits)

lemma invoke_callback_queries:
  "invoke_callback env name element wd w = (r, w1) \<Longrightarrow> queries (trace w1) = queries (trace w)"
  unfolding invoke_callback_def by (rule invoke_callback_with_queries)

lemma ready_step_trace_ok:
  "ready_step env element wd w = (Inr u, w1) \<Longrightarrow>
     trace w1 = trace w
       @ (if truthy (get_prop (heap w) element ''readyCallback'')
          then [Invoked ''readyCallback'' element (truthy (get_prop (heap w) element ''__upgraded__''))]
          else [])"
  by (auto simp: ready_step_def dest: invoke_callback_trace_ok split: if_splits)

lemma inserted_step_trace_ok:
  "inserted_step env element wd w = (Inr u, w1) \<Longrightarrow>
     trace w1 = trace w
       @ (if truthy (get_prop (heap w) element ''insertedCallback'') \<and> in_document (heap w element)
          then [Invoked ''insertedCallback'' element (truthy (get_prop (heap w) element ''__upgraded__''))]
          else [])"
  by (auto simp: inserted_step_def dest: invoke_callback_trace_ok split: if_splits)

lemma ready_step_queries:
  "ready_step env element wd w = (r, w1) \<Longrightarrow> queries (trace w1) = queries (trace w)"
  by (auto simp: ready_step_def dest!: invoke_callback_queries split: if_splits)

lemma inserted_step_queries:
  "inserted_step env element wd w = (r, w1) \<Longrightarrow> queries (trace w1) = queries (trace w)"
  by (auto simp: inserted_step_def dest!: invoke_callback_queries split: if_splits)

lemma ready_step_inherited_queries:
  "ready_step_inherited env element v w = (r, w1) \<Longrightarrow> queries (trace w1) = queries (trace w)"
  by (auto simp: ready_step_inherited_def dest!: invoke_callback_with_queries split: if_splits)

lemma inserted_step_inherited_queries:
  "inserted_step_inherited env element v w = (r, w1) \<Longrightarrow> queries (trace w1) = queries (trace w)"
  by (auto simp: inserted_step_inherited_def dest!: invoke_callback_with_queries split: if_splits)




text \<open>No call of \<^verbatim>\<open>upgrade\<close> queries the document.\<close>

lemma upgrade_inherited_queries:
  assumes "upgrade_inherited env element v w = (r, w')"
  shows "queries (trace w') = queries (trace w)"
proof -
  obtain r1 w1 where r1: "redefine_prototype_inherited env element v w = (r1, w1)"
    by (cases "redefine_prototype_inherited env element v w")
  note t1 = redefine_prototype_inherited_queries [OF r1]
  show ?thesis
  proof (cases r1)
    case (Inl err)
    with assms r1 have "w' = w1" by (auto simp: upgrade_inherited_def)
    with t1 show ?thesis by simp
  next
    case (Inr u)
    obtain r3 w3 where r3: "ready_step_inherited env element v (mark_upgraded element w1) = (r3, w3)"
      by (cases "ready_step_inherited env element v (mark_upgraded element w1)")
    from ready_step_inherited_queries [OF r3] have t3: "queries (trace w3) = queries (trace w1)"
      by simp
    show ?thesis
    proof (cases r3)
      case (Inl err)
      with assms r1 Inr r3 have "w' = w3" by (auto simp: upgrade_inherited_def)
      with t1 t3 show ?thesis by simp
    next
      case (Inr u3)
      with assms r1 \<open>r1 = Inr u\<close> r3 have "inserted_step_inherited env element v w3 = (r, w')"
        by (auto simp: upgrade_inherited_def)
      from inserted_step_inherited_queries [OF this] t1 t3 show ?thesis by simp
    qed
  qed
qed

lemma upgrade_queries:
  assumes "upgrade env element w = (r, w')"
  shows "queries (trace w') = queries (trace w)"
proof (cases "registry w (registry_key (heap w) element)")
  case None
  show ?thesis
  proof (cases "\<not> truthy (get_prop (heap w) element ''__upgraded__'')
                \<and> truthy (inherited_value env (heap w) (registry_key (heap w) element))")
    case False
    with assms None have "w' = w" by (auto simp: upgrade_def split: if_splits)
    then show ?thesis by simp
  next
    case True
    with assms None have "upgrade_inherited env element
        (inherited_value env (heap w) (registry_key (heap w) element)) w = (r, w')"
      by (simp add: upgrade_def)
    then show ?thesis by (rule upgrade_inherited_queries)
  qed
next
  case (Some wd)
  show ?thesis
  proof (cases "truthy (get_prop (heap w) element ''__upgraded__'')")
    case True
    with assms have "w' = w" by (simp add: upgrade_def)
    then show ?thesis by simp
  next
    case False
    obtain r1 w1 where r1: "redefine_prototype env element wd w = (r1, w1)"
      by (cases "redefine_prototype env element wd w")
    note t1 = redefine_prototype_queries [OF r1]
    show ?thesis
    proof (cases r1)
      case (Inl err)
      with assms False Some r1 have "w' = w1" by (auto simp: upgrade_def)
      with t1 show ?thesis by simp
    next
      case (Inr u)
      obtain r3 w3 where r3: "ready_step env element wd (mark_upgraded element w1) = (r3, w3)"
        by (cases "ready_step env element wd (mark_upgraded element w1)")
      from ready_step_queries [OF r3] have t3: "queries (trace w3) = queries (trace w1)"
        by simp
      show ?thesis
      proof (cases r3)
        case (Inl err)
        with assms False Some r1 Inr r3 have "w' = w3" by (auto simp: upgrade_def)
        with t1 t3 show ?thesis by simp
      next
        case (Inr u3)
        with assms False Some r1 \<open>r1 = Inr u\<close> r3 have "inserted_step env element wd w3 = (r, w')"
          by (auto simp: upgrade_def)
        from inserted_step_queries [OF this] t1 t3 show ?thesis by simp
      qed
    qed
  qed
qed

text \<open>Where no function clears the marker, a callback leaves a marked node marked.\<close>

lemma invoke_callback_keeps_marker:
  assumes "keeps_marker env element"
      and "truthy (get_prop (heap w) element ''__upgraded__'')"
      and "invoke_callback env name element wd w = (r, w1)"
  shows "truthy (get_prop (heap w1) element ''__upgraded__'')"
proof (cases "\<exists>f. get_prop (heap w) element name = JRef f \<and> callable (heap w f)")
  case False
  with assms(3) have "w1 = w"
    by (auto simp: invoke_callback_def invoke_callback_with_def split: jsval.splits if_splits)
  with assms(2) show ?thesis by simp
next
  case True
  then obtain f where f: "get_prop (heap w) element name = JRef f" "callable (heap w f)" by auto
  with assms(3) have "heap w1 = snd (apply_fun env f element [JRef (prototype wd)] (heap w))"
    by (auto simp: invoke_callback_def invoke_callback_with_def Let_def split: prod.splits sum.splits)
  with assms(1,2) show ?thesis by (simp add: keeps_marker_def)
qed

text \<open>
  The registry is read once, under the key of the node: an entry under another name has
  no part in the call, and no step writes the registry.
\<close>

lemma redefine_prototype_registry:
  "redefine_prototype env element wd (w\<lparr>registry := R\<rparr>) =
     (case redefine_prototype env element wd w of (r, w1) \<Rightarrow> (r, w1\<lparr>registry := R\<rparr>))"
  by (simp add: redefine_prototype_def split: option.splits)

lemma redefine_prototype_inherited_registry:
  "redefine_prototype_inherited env element v (w\<lparr>registry := R\<rparr>) =
     (case redefine_prototype_inherited env element v w of (r, w1) \<Rightarrow> (r, w1\<lparr>registry := R\<rparr>))"
  by (simp add: redefine_prototype_inherited_def split: jsval.splits prod.splits sum.splits)

lemma mark_upgraded_registry:
  "mark_upgraded element (w\<lparr>registry := R\<rparr>) = (mark_upgraded element w)\<lparr>registry := R\<rparr>"
  by (simp add: mark_upgraded_def)

lemma invoke_callback_with_registry:
  "invoke_callback_with env name element arg (w\<lparr>registry := R\<rparr>) =
     (case invoke_callback_with env name element arg w of (r, w1) \<Rightarrow> (r, w1\<lparr>registry := R\<rparr>))"
  by (simp add: invoke_callback_with_def Let_def split: jsval.splits prod.splits sum.splits)

lemma ready_step_registry:
  "ready_step env element wd (w\<lparr>registry := R\<rparr>) =
     (case ready_step env element wd w of (r, w1) \<Rightarrow> (r, w1\<lparr>registry := R\<rparr>))"
  by (simp add: ready_step_def invoke_callback_def invoke_callback_with_registry)

lemma inserted_step_registry:
  "inserted_step env element wd (w\<lparr>registry := R\<rparr>) =
     (case inserted_step env element wd w of (r, w1) \<Rightarrow> (r, w1\<lparr>registry := R\<rparr>))"
  by (simp add: inserted_step_def invoke_callback_def invoke_callback_with_registry)

lemma ready_step_inherited_registry:
  "ready_step_inherited env element v (w\<lparr>registry := R\<rparr>) =
     (case ready_step_inherited env element v w of (r, w1) \<Rightarrow> (r, w1\<lparr>registry := R\<rparr>))"
  by (simp add: ready_step_inherited_def invoke_callback_with_registry)

lemma inserted_step_inherited_registry:
  "inserted_step_inherited env element v (w\<lparr>registry := R\<rparr>) =
     (case inserted_step_inherited env element v w of (r, w1) \<Rightarrow> (r, w1\<lparr>registry := R\<rparr>))"
  by (simp add: inserted_step_inherited_def invoke_callback_with_registry)

lemma upgrade_inherited_registry:
  "upgrade_inherited env element v (w\<lparr>registry := R\<rparr>) =
     (case upgrade_inherited env element v w of (r, w1) \<Rightarrow> (r, w1\<lparr>registry := R\<rparr>))"
  by (simp add: upgrade_inherited_def redefine_prototype_inherited_registry mark_upgraded_registry
        ready_step_inherited_registry inserted_step_inherited_registry
      split: prod.splits sum.splits)

lemma upgrade_registry:
  assumes "R (registry_key (heap w) element) = registry w (registry_key (heap w) element)"
  shows "upgrade env element (w\<lparr>registry := R\<rparr>) =
           (case upgrade env element w of (r, w1) \<Rightarrow> (r, w1\<lparr>registry := R\<rparr>))"
proof (cases "truthy (get_prop (heap w) element ''__upgraded__'')")
  case True
  then show ?thesis by (simp add: upgrade_def)
next
  case False
  show ?thesis
  proof (cases "registry w (registry_key (heap w) element)")
    case None
    with False assms show ?thesis
      by (simp add: upgrade_def upgrade_inherited_registry)
  next
    case (Some wd)
    with False assms show ?thesis
      by (simp add: upgrade_def redefine_prototype_registry mark_upgraded_registry
            ready_step_registry inserted_step_registry
          split: prod.splits sum.splits)
  qed
qed

subsection \<open>Calls on the example document\<close>

text \<open>
  Nodes 6 and 8 belong to widgets whose \<^verbatim>\<open>readyCallback\<close> clears the marker. What two
  successive calls of \<^verbatim>\<open>upgrade\<close> make of each.
\<close>

lemma example_heap_at:
  "example_heap 6 = node_object ''X-FORGETFUL''"
  "example_heap 8 = node_object ''X-RESET''"
  "example_heap 12 = plain_object\<lparr>props := [''readyCallback'' \<mapsto> JRef 22, ''insertedCallback'' \<mapsto> JRef 21]\<rparr>"
  "example_heap 14 = plain_object\<lparr>props := [''readyCallback'' \<mapsto> JRef 24, ''insertedCallback'' \<mapsto> JRef 21]\<rparr>"
  "example_heap 21 = function_object"
  "example_heap 22 = function_object"
  "example_heap 24 = function_object"
  by (simp_all add: example_heap_def)

lemmas upgrade_defs = upgrade_def registry_key_def getAttribute_def js_or_def redefine_prototype_def
  mark_upgraded_def ready_step_def inserted_step_def invoke_callback_def invoke_callback_with_def
  get_prop_def set_prop_def Let_def

lemmas example_defs = example_world_def example_env_def example_heap_at node_object_def
  plain_object_def function_object_def

lemma lower_forgetful: "toLowerCase ''X-FORGETFUL'' = ''x-forgetful''"
  by code_simp

lemma lower_reset: "toLowerCase ''X-RESET'' = ''x-reset''"
  by code_simp

lemma forgetful_first_call:
  "upgrade example_env 6 example_world =
     (Inr (),
      example_world
        \<lparr>heap := example_heap
           (6 := (node_object ''X-FORGETFUL'')
              \<lparr>proto := Some 12, props := [''__upgraded__'' \<mapsto> JBool False, ''inserted'' \<mapsto> JBool True]\<rparr>),
         trace := [ProtoAssigned 6 12, Marked 6, Invoked ''readyCallback'' 6 True,
                   Invoked ''insertedCallback'' 6 False]\<rparr>)"
  by (simp add: upgrade_defs example_defs lower_forgetful)


lemma reset_first_call:
  "upgrade example_env 8 example_world =
     (Inl (Thrown (JStr ''not ready'')),
      example_world
        \<lparr>heap := example_heap
           (8 := (node_object ''X-RESET'')\<lparr>proto := Some 14, props := [''__upgraded__'' \<mapsto> JBool False]\<rparr>),
         trace := [ProtoAssigned 8 14, Marked 8, Invoked ''readyCallback'' 8 True]\<rparr>)"
  by (simp add: upgrade_defs example_defs lower_reset)

lemma reset_second_call:
  "upgrade example_env 8
     (example_world
        \<lparr>heap := example_heap
           (8 := (node_object ''X-RESET'')\<lparr>proto := Some 14, props := [''__upgraded__'' \<mapsto> JBool False]\<rparr>),
         trace := [ProtoAssigned 8 14, Marked 8, Invoked ''readyCallback'' 8 True]\<rparr>) =
     (Inl (Thrown (JStr ''not ready'')),
      example_world
        \<lparr>heap := example_heap
           (8 := (node_object ''X-RESET'')\<lparr>proto := Some 14, props := [''__upgraded__'' \<mapsto> JBool False]\<rparr>),
         trace := [ProtoAssigned 8 14, Marked 8, Invoked ''readyCallback'' 8 True,
                   ProtoAssigned 8 14, Marked 8, Invoked ''readyCallback'' 8 True]\<rparr>)"
  by (simp add: upgrade_defs example_defs lower_reset)

text \<open>
  Node 15 is \<^verbatim>\<open><div is="constructor">\<close>. No widget is registered under \<^verbatim>\<open>constructor\<close>, but
  \<^verbatim>\<open>registry\<close> inherits the function \<^verbatim>\<open>Object\<close> under that name: the node gets
  \<^verbatim>\<open>Object.prototype\<close> for its prototype and is marked. And \<^verbatim>\<open>register\<close> refuses the tag.
\<close>

lemma inherited_key_is_upgraded:
  "registry example_world (registry_key (heap example_world) 15) = None"
  "inherited_value example_env (heap example_world) (registry_key (heap example_world) 15) = JRef 61"
  "fst (upgrade example_env 15 example_world) = Inr ()"
  "trace (snd (upgrade example_env 15 example_world)) = [ProtoAssigned 15 60, Marked 15]"
  "proto (heap (snd (upgrade example_env 15 example_world)) 15) = Some 60"
  "get_prop (heap (snd (upgrade example_env 15 example_world))) 15 ''__upgraded__'' = JBool True"
proof -
  have k: "registry_key (heap example_world) 15 = ''constructor''" by code_simp
  show "registry example_world (registry_key (heap example_world) 15) = None"
    unfolding k by (simp add: example_world_def)
  show "inherited_value example_env (heap example_world) (registry_key (heap example_world) 15) = JRef 61"
    by code_simp
  show "fst (upgrade example_env 15 example_world) = Inr ()" by code_simp
  show "trace (snd (upgrade example_env 15 example_world)) = [ProtoAssigned 15 60, Marked 15]" by code_simp
  show "proto (heap (snd (upgrade example_env 15 example_world)) 15) = Some 60" by code_simp
  show "get_prop (heap (snd (upgrade example_env 15 example_world))) 15 ''__upgraded__'' = JBool True"
    by code_simp
qed

subsection \<open>The registry key\<close>

text \<open>
  Node 3 is \<^verbatim>\<open><button is="PD-Button">\<close>: its key differs from the registered tag
  \<^verbatim>\<open>pd-button\<close> only in letter case, and it matches no widget; \<^verbatim>\<open>upgrade\<close> leaves it alone.
  Node 9 is \<^verbatim>\<open><pd-panel is="">\<close>: its \<^verbatim>\<open>is\<close> attribute is present, and its key is its tag name.
\<close>

theorem registry_key_case_counterexample:
  "registry_key (heap example_world) 3 = ''PD-Button''
   \<and> toLowerCase ''PD-Button'' = ''pd-button''
   \<and> registry example_world ''pd-button'' \<noteq> None
   \<and> registry example_world (registry_key (heap example_world) 3) = None
   \<and> upgrade example_env 3 example_world = (Inr (), example_world)
   \<and> attributes (heap example_world 9) ''is'' = Some []
   \<and> registry_key (heap example_world) 9 = ''pd-panel''"
proof -
  have k: "registry_key (heap example_world) 3 = ''PD-Button''" by code_simp
  have l: "toLowerCase ''PD-Button'' = ''pd-button''" by code_simp
  have r: "registry example_world ''pd-button'' \<noteq> None" by (simp add: example_world_def)
  have n: "registry example_world (registry_key (heap example_world) 3) = None"
    unfolding k by (simp add: example_world_def)
  have i: "\<not> truthy (inherited_value example_env (heap example_world) (registry_key (heap example_world) 3))"
    by code_simp
  have a: "attributes (heap example_world 9) ''is'' = Some []" by code_simp
  have e: "registry_key (heap example_world) 9 = ''pd-panel''" by code_simp
  from k l r n a e upgrade_unmatched [OF n i] show ?thesis by simp
qed

text \<open>
  \<^bold>\<open>C5\<close>, as the code has it. For every node passed to \<^verbatim>\<open>upgrade\<close>, the Registry lookup key
  is the node's \<^verbatim>\<open>is\<close> attribute, exactly as written, when that attribute is present and
  not empty, and otherwise the node's own tag name in lower case. Only the tag name is
  lower-cased, and the Registry is read under exactly that key: an entry under any other
  name, one that differs from the key only in letter case included, has no part in the
  call. A not-yet-upgraded node whose key is a registered tag gets that widget's prototype:
  by reassignment, or by the copy of the descriptors saved at registration (without which
  the call throws), and on the node so changed and marked the callbacks run.
\<close>

theorem registry_key_resolution:
  "registry_key (heap w) element =
     (case attributes (heap w element) ''is'' of
        Some s \<Rightarrow> if s \<noteq> [] then s else toLowerCase (nodeName (heap w element))
      | None \<Rightarrow> toLowerCase (nodeName (heap w element)))
   \<and> (k \<noteq> registry_key (heap w) element \<longrightarrow>
        upgrade env element (w\<lparr>registry := (registry w)(k := e)\<rparr>)
          = (fst (upgrade env element w), (snd (upgrade env element w))\<lparr>registry := (registry w)(k := e)\<rparr>))
   \<and> (\<not> truthy (get_prop (heap w) element ''__upgraded__'')
        \<and> registry w (registry_key (heap w) element) = Some wd \<longrightarrow>
          (has_proto env \<longrightarrow>
             proto (heap (installed_and_marked env element wd w) element) = Some (prototype wd))
        \<and> (\<not> has_proto env \<longrightarrow>
             (case raw_prototype wd of
                None \<Rightarrow> upgrade env element w = (Inl EngineTypeError, w)
              | Some d \<Rightarrow>
                  props (heap (installed_and_marked env element wd w) element)
                    = (props (heap w element) ++ d)(''__upgraded__'' \<mapsto> JBool True)))
        \<and> (has_proto env \<or> raw_prototype wd \<noteq> None \<longrightarrow>
             upgrade env element w =
               (case ready_step env element wd (installed_and_marked env element wd w) of
                  (Inl err, w3) \<Rightarrow> (Inl err, w3)
                | (Inr u, w3) \<Rightarrow> inserted_step env element wd w3)))"
proof (intro conjI impI)
  show "registry_key (heap w) element =
     (case attributes (heap w element) ''is'' of
        Some s \<Rightarrow> if s \<noteq> [] then s else toLowerCase (nodeName (heap w element))
      | None \<Rightarrow> toLowerCase (nodeName (heap w element)))"
    by (simp add: registry_key_def getAttribute_def js_or_def split: option.splits)
next
  assume "k \<noteq> registry_key (heap w) element"
  then have "((registry w)(k := e)) (registry_key (heap w) element) = registry w (registry_key (heap w) element)"
    by simp
  from upgrade_registry [of "(registry w)(k := e)", OF this]
  show "upgrade env element (w\<lparr>registry := (registry w)(k := e)\<rparr>)
          = (fst (upgrade env element w), (snd (upgrade env element w))\<lparr>registry := (registry w)(k := e)\<rparr>)"
    by (simp add: case_prod_beta)
next
  assume "has_proto env"
  then show "proto (heap (installed_and_marked env element wd w) element) = Some (prototype wd)"
    by (simp add: installed_and_marked_def redefine_prototype_def mark_upgraded_proto)
next
  assume a: "\<not> truthy (get_prop (heap w) element ''__upgraded__'')
        \<and> registry w (registry_key (heap w) element) = Some wd"
     and n: "\<not> has_proto env"
  show "case raw_prototype wd of
          None \<Rightarrow> upgrade env element w = (Inl EngineTypeError, w)
        | Some d \<Rightarrow>
            props (heap (installed_and_marked env element wd w) element)
              = (props (heap w element) ++ d)(''__upgraded__'' \<mapsto> JBool True)"
  proof (cases "raw_prototype wd")
    case None
    with a n show ?thesis by (simp add: upgrade_matched redefine_prototype_def)
  next
    case (Some d)
    with n show ?thesis
      by (simp add: installed_and_marked_def redefine_prototype_def mark_upgraded_def set_prop_def)
  qed
next
  assume a: "\<not> truthy (get_prop (heap w) element ''__upgraded__'')
        \<and> registry w (registry_key (heap w) element) = Some wd"
     and i: "has_proto env \<or> raw_prototype wd \<noteq> None"
  from i have "\<exists>w1. redefine_prototype env element wd w = (Inr (), w1)"
    by (cases "has_proto env") (auto simp: redefine_prototype_def)
  then obtain w1 where r: "redefine_prototype env element wd w = (Inr (), w1)" ..
  with a show "upgrade env element w =
               (case ready_step env element wd (installed_and_marked env element wd w) of
                  (Inl err, w3) \<Rightarrow> (Inl err, w3)
                | (Inr u, w3) \<Rightarrow> inserted_step env element wd w3)"
    by (simp add: upgrade_matched installed_and_marked_def)
qed

theorem registry_key_resolution_witness:
  "registry_key (heap example_world) 0 = ''pd-button''
   \<and> nodeName (heap example_world 4) = ''PD-PANEL''
   \<and> registry_key (heap example_world) 4 = ''pd-panel''
   \<and> registry example_world (registry_key (heap example_world) 4)
       = Some \<lparr>prototype = 11, extends = Undefined, raw_prototype = None\<rparr>
   \<and> upgrade example_env 4 (example_world\<lparr>registry := (registry example_world)(''PD-PANEL'' := None)\<rparr>)
       = (fst (upgrade example_env 4 example_world),
          (snd (upgrade example_env 4 example_world))\<lparr>registry := (registry example_world)(''PD-PANEL'' := None)\<rparr>)
   \<and> proto (heap (installed_and_marked example_env 4 \<lparr>prototype = 11, extends = Undefined, raw_prototype = None\<rparr>
                     example_world) 4) = Some 11
   \<and> upgrade example_env 4 example_world =
       (case ready_step example_env 4 \<lparr>prototype = 11, extends = Undefined, raw_prototype = None\<rparr>
               (installed_and_marked example_env 4 \<lparr>prototype = 11, extends = Undefined, raw_prototype = None\<rparr>
                  example_world) of
          (Inl err, w3) \<Rightarrow> (Inl err, w3)
        | (Inr u, w3) \<Rightarrow>
            inserted_step example_env 4 \<lparr>prototype = 11, extends = Undefined, raw_prototype = None\<rparr> w3)
   \<and> proto (heap (snd (upgrade example_env 4 example_world)) 4) = Some 11"
proof -
  let ?wd = "\<lparr>prototype = 11, extends = Undefined, raw_prototype = None\<rparr>"
  have a0: "attributes (heap example_world 0) ''is'' = Some ''pd-button''" by code_simp
  have a4: "attributes (heap example_world 4) ''is'' = None" by code_simp
  have n4: "nodeName (heap example_world 4) = ''PD-PANEL''" by code_simp
  have l4: "toLowerCase ''PD-PANEL'' = ''pd-panel''" by code_simp
  have u4: "\<not> truthy (get_prop (heap example_world) 4 ''__upgraded__'')" by code_simp
  have r4: "registry example_world ''pd-panel'' = Some ?wd"
    by (simp add: example_world_def)
  have p: "has_proto example_env" by (simp add: example_env_def)
  have f: "proto (heap (snd (upgrade example_env 4 example_world)) 4) = Some 11" by code_simp
  note t0 = registry_key_resolution [of example_world 0 "''PD-PANEL''" example_env None ?wd]
  note t4 = registry_key_resolution [of example_world 4 "''PD-PANEL''" example_env None ?wd]
  from t0 [THEN conjunct1] a0
  have k0: "registry_key (heap example_world) 0 = ''pd-button''" by simp
  from t4 [THEN conjunct1] a4 n4 l4
  have k4: "registry_key (heap example_world) 4 = ''pd-panel''" by simp
  have m4: "registry example_world (registry_key (heap example_world) 4) = Some ?wd"
    unfolding k4 by (rule r4)
  have d: "''PD-PANEL'' \<noteq> registry_key (heap example_world) 4"
    unfolding k4 by simp
  note other = t4 [THEN conjunct2, THEN conjunct1, THEN mp, OF d]
  note matched = t4 [THEN conjunct2, THEN conjunct2, THEN mp, OF conjI [OF u4 m4]]
  note inst = matched [THEN conjunct1, THEN mp, OF p]
  note run = matched [THEN conjunct2, THEN conjunct2, THEN mp, OF disjI1 [OF p]]
  from inst have inst': "proto (heap (installed_and_marked example_env 4 ?wd example_world) 4) = Some 11"
    by simp
  show ?thesis by (intro conjI k0 n4 k4 m4 other inst' run f)
qed

subsection \<open>The order of the steps\<close>

text \<open>
  Node 6 is in the document, and its widget's \<^verbatim>\<open>readyCallback\<close> clears the marker of the
  node: \<^verbatim>\<open>insertedCallback\<close> then runs on a node that carries no marker.
\<close>

theorem inserted_callback_unmarked_counterexample:
  "\<not> truthy (get_prop (heap example_world) 6 ''__upgraded__'')
   \<and> registry example_world (registry_key (heap example_world) 6) \<noteq> None
   \<and> fst (upgrade example_env 6 example_world) = Inr ()
   \<and> trace (snd (upgrade example_env 6 example_world)) =
       [ProtoAssigned 6 12, Marked 6, Invoked ''readyCallback'' 6 True, Invoked ''insertedCallback'' 6 False]"
proof -
  have u: "\<not> truthy (get_prop (heap example_world) 6 ''__upgraded__'')" by code_simp
  have k: "registry_key (heap example_world) 6 = ''x-forgetful''" by code_simp
  have m: "registry example_world (registry_key (heap example_world) 6) \<noteq> None"
    unfolding k by (simp add: example_world_def)
  from u m show ?thesis by (simp add: forgetful_first_call)
qed

text \<open>
  \<^bold>\<open>C4\<close>, as the code has it. In every upgrade of a not-yet-upgraded matching node that
  returns, the steps occur in this order: first the prototype mutation (reassignment or
  per-descriptor copy), then setting the upgraded marker to true, then invoking
  \<^verbatim>\<open>readyCallback\<close> if present, then invoking \<^verbatim>\<open>insertedCallback\<close> if present and the node is
  attached to the live document. So \<^verbatim>\<open>readyCallback\<close> observes a node that has its prototype
  and is already marked upgraded, and \<^verbatim>\<open>insertedCallback\<close> observes the node as
  \<^verbatim>\<open>readyCallback\<close> left it: marked as well, unless \<^verbatim>\<open>readyCallback\<close> cleared the marker.
\<close>

theorem upgrade_steps_in_order:
  assumes unmarked: "\<not> truthy (get_prop (heap w) element ''__upgraded__'')"
      and matched: "registry w (registry_key (heap w) element) = Some wd"
      and ok: "upgrade env element w = (Inr (), w')"
  shows "fst (redefine_prototype env element wd w) = Inr ()
       \<and> ready_step env element wd (installed_and_marked env element wd w) = (Inr (), after_ready env element wd w)
       \<and> inserted_step env element wd (after_ready env element wd w) = (Inr (), w')
       \<and> trace w' = trace w
            @ [if has_proto env then ProtoAssigned element (prototype wd) else PropertiesDefined element,
               Marked element]
            @ (if truthy (get_prop (heap (installed_and_marked env element wd w)) element ''readyCallback'')
               then [Invoked ''readyCallback'' element True] else [])
            @ (if truthy (get_prop (heap (after_ready env element wd w)) element ''insertedCallback'')
                  \<and> in_document (heap (after_ready env element wd w) element)
               then [Invoked ''insertedCallback'' element
                       (truthy (get_prop (heap (after_ready env element wd w)) element ''__upgraded__''))]
               else [])
       \<and> get_prop (heap (installed_and_marked env element wd w)) element ''__upgraded__'' = JBool True
       \<and> (has_proto env \<longrightarrow> proto (heap (installed_and_marked env element wd w) element) = Some (prototype wd))
       \<and> (keeps_marker env element \<longrightarrow>
            truthy (get_prop (heap (after_ready env element wd w)) element ''__upgraded__''))"
proof -
  from ok unmarked matched obtain w1 where r: "redefine_prototype env element wd w = (Inr (), w1)"
    by (auto simp: upgrade_def split: prod.splits sum.splits)
  then have w2: "installed_and_marked env element wd w = mark_upgraded element w1"
    by (simp add: installed_and_marked_def)
  from r ok unmarked matched obtain w3 where
    s: "ready_step env element wd (mark_upgraded element w1) = (Inr (), w3)"
    by (auto simp: upgrade_def split: prod.splits sum.splits)
  then have w3: "after_ready env element wd w = w3"
    by (simp add: after_ready_def w2)
  from s r ok unmarked matched have i: "inserted_step env element wd w3 = (Inr (), w')"
    by (auto simp: upgrade_def split: prod.splits sum.splits)
  have p: "has_proto env \<longrightarrow> proto (heap (mark_upgraded element w1) element) = Some (prototype wd)"
    using r by (auto simp: redefine_prototype_def mark_upgraded_proto)
  have k: "keeps_marker env element \<longrightarrow> truthy (get_prop (heap w3) element ''__upgraded__'')"
  proof
    assume keeps: "keeps_marker env element"
    show "truthy (get_prop (heap w3) element ''__upgraded__'')"
    proof (cases "truthy (get_prop (heap (mark_upgraded element w1)) element ''readyCallback'')")
      case True
      with s have "invoke_callback env ''readyCallback'' element wd (mark_upgraded element w1) = (Inr (), w3)"
        by (simp add: ready_step_def)
      from invoke_callback_keeps_marker [OF keeps _ this] show ?thesis by simp
    next
      case False
      with s have "w3 = mark_upgraded element w1" by (simp add: ready_step_def)
      then show ?thesis by simp
    qed
  qed
  from redefine_prototype_trace [OF r] ready_step_trace_ok [OF s] inserted_step_trace_ok [OF i] r s i p k
  show ?thesis by (simp add: w2 w3)
qed

theorem upgrade_steps_in_order_witness:
  "\<not> truthy (get_prop (heap example_world) 0 ''__upgraded__'')
   \<and> registry example_world (registry_key (heap example_world) 0)
       = Some \<lparr>prototype = 10, extends = JStr ''button'', raw_prototype = None\<rparr>
   \<and> fst (upgrade tidy_env 0 example_world) = Inr ()
   \<and> trace (snd (upgrade tidy_env 0 example_world)) =
       [ProtoAssigned 0 10, Marked 0, Invoked ''readyCallback'' 0 True, Invoked ''insertedCallback'' 0 True]
   \<and> proto (heap (installed_and_marked tidy_env 0 \<lparr>prototype = 10, extends = JStr ''button'', raw_prototype = None\<rparr>
                     example_world) 0) = Some 10"
proof -
  let ?wd = "\<lparr>prototype = 10, extends = JStr ''button'', raw_prototype = None\<rparr>"
  have u: "\<not> truthy (get_prop (heap example_world) 0 ''__upgraded__'')" by code_simp
  have k: "registry_key (heap example_world) 0 = ''pd-button''" by code_simp
  have m: "registry example_world (registry_key (heap example_world) 0) = Some ?wd"
    unfolding k by (simp add: example_world_def)
  have f: "fst (upgrade tidy_env 0 example_world) = Inr ()" by code_simp
  then have ok: "upgrade tidy_env 0 example_world = (Inr (), snd (upgrade tidy_env 0 example_world))"
    by (simp add: prod_eq_iff)
  have p: "has_proto tidy_env" by (simp add: tidy_env_def example_env_def)
  have c1: "truthy (get_prop (heap (installed_and_marked tidy_env 0 ?wd example_world)) 0 ''readyCallback'')"
    by code_simp
  have c2: "truthy (get_prop (heap (after_ready tidy_env 0 ?wd example_world)) 0 ''insertedCallback'')"
    by code_simp
  have c3: "in_document (heap (after_ready tidy_env 0 ?wd example_world) 0)" by code_simp
  have c4: "truthy (get_prop (heap (after_ready tidy_env 0 ?wd example_world)) 0 ''__upgraded__'')"
    by code_simp
  have t: "trace example_world = []" by (simp add: example_world_def)
  from upgrade_steps_in_order [OF u m ok] u m f p c1 c2 c3 c4 t show ?thesis by simp
qed

subsection \<open>A second call\<close>




subsection \<open>A callback that throws\<close>

text \<open>
  The \<^verbatim>\<open>readyCallback\<close> of node 8 clears the marker of the node and then throws. The next
  call of \<^verbatim>\<open>upgrade\<close> on the node is no no-op: it runs the steps again, and the callback
  with them.
\<close>

theorem ready_throws_later_call_counterexample:
  "fst (upgrade example_env 8 example_world) = Inl (Thrown (JStr ''not ready''))
   \<and> get_prop (heap (snd (upgrade example_env 8 example_world))) 8 ''__upgraded__'' = JBool False
   \<and> fst (upgrade example_env 8 (snd (upgrade example_env 8 example_world))) = Inl (Thrown (JStr ''not ready''))
   \<and> invocations ''readyCallback'' 8 (trace (snd (upgrade example_env 8 example_world))) = 1
   \<and> invocations ''readyCallback'' 8
        (trace (snd (upgrade example_env 8 (snd (upgrade example_env 8 example_world))))) = 2"
  by (simp add: reset_first_call reset_second_call get_prop_def)

text \<open>
  \<^bold>\<open>C10\<close>, as the code has it. If a node's \<^verbatim>\<open>readyCallback\<close> throws during \<^verbatim>\<open>upgrade\<close>, the
  node had received the widget's prototype and had its upgraded marker set to true when
  the callback was invoked, and the exception rolls nothing back: \<^verbatim>\<open>upgrade\<close> throws the same
  exception, the heap is as the callback left it, and \<^verbatim>\<open>insertedCallback\<close> is not invoked.
  Every later \<^verbatim>\<open>upgrade\<close> call on the node is a no-op provided the callback did not itself
  clear the marker before it threw.
\<close>

theorem ready_callback_throws:
  assumes unmarked: "\<not> truthy (get_prop (heap w) element ''__upgraded__'')"
      and matched: "registry w (registry_key (heap w) element) = Some wd"
      and installed: "fst (redefine_prototype env element wd w) = Inr ()"
      and ready: "get_prop (heap (installed_and_marked env element wd w)) element ''readyCallback'' = JRef f"
      and is_fun: "callable (heap (installed_and_marked env element wd w) f)"
      and throws: "fst (apply_fun env f element [JRef (prototype wd)]
                         (heap (installed_and_marked env element wd w))) = Inl err"
  shows "fst (upgrade env element w) = Inl err
       \<and> get_prop (heap (installed_and_marked env element wd w)) element ''__upgraded__'' = JBool True
       \<and> (has_proto env \<longrightarrow> proto (heap (installed_and_marked env element wd w) element) = Some (prototype wd))
       \<and> heap (snd (upgrade env element w))
           = snd (apply_fun env f element [JRef (prototype wd)] (heap (installed_and_marked env element wd w)))
       \<and> trace (snd (upgrade env element w)) = trace w
           @ [if has_proto env then ProtoAssigned element (prototype wd) else PropertiesDefined element,
              Marked element, Invoked ''readyCallback'' element True]
       \<and> invocations ''insertedCallback'' element (trace (snd (upgrade env element w)))
           = invocations ''insertedCallback'' element (trace w)
       \<and> (truthy (get_prop (heap (snd (upgrade env element w))) element ''__upgraded__'') \<longrightarrow>
            upgrade env element (snd (upgrade env element w)) = (Inr (), snd (upgrade env element w)))"
proof -
  obtain w1 where r: "redefine_prototype env element wd w = (Inr (), w1)"
    using installed by (cases "redefine_prototype env element wd w") auto
  let ?w2 = "mark_upgraded element w1"
  have w2: "installed_and_marked env element wd w = ?w2"
    using r by (simp add: installed_and_marked_def)
  obtain h' where a: "apply_fun env f element [JRef (prototype wd)] (heap ?w2) = (Inl err, h')"
    using throws unfolding w2 by (cases "apply_fun env f element [JRef (prototype wd)] (heap ?w2)") auto
  let ?w' = "?w2\<lparr>trace := trace ?w2 @ [Invoked ''readyCallback'' element True], heap := h'\<rparr>"
  have step: "ready_step env element wd ?w2 = (Inl err, ?w')"
    using ready is_fun a unfolding w2 by (simp add: ready_step_def invoke_callback_def invoke_callback_with_def)
  have up: "upgrade env element w = (Inl err, ?w')"
    using unmarked matched r step by (simp add: upgrade_def)
  have tr: "trace ?w' = trace w
       @ [if has_proto env then ProtoAssigned element (prototype wd) else PropertiesDefined element,
          Marked element, Invoked ''readyCallback'' element True]"
    using redefine_prototype_trace [OF r] by simp
  have pr: "has_proto env \<longrightarrow> proto (heap ?w2 element) = Some (prototype wd)"
    using r by (auto simp: redefine_prototype_def mark_upgraded_proto)
  have later: "truthy (get_prop h' element ''__upgraded__'') \<longrightarrow> upgrade env element ?w' = (Inr (), ?w')"
    by (simp add: upgrade_marked)
  have inv: "invocations ''insertedCallback'' element (trace ?w')
      = invocations ''insertedCallback'' element (trace w)"
    unfolding tr by simp
  from up tr pr later inv a show ?thesis unfolding w2 by simp
qed

theorem ready_callback_throws_witness:
  "\<not> truthy (get_prop (heap example_world) 7 ''__upgraded__'')
   \<and> registry example_world (registry_key (heap example_world) 7)
       = Some \<lparr>prototype = 13, extends = Undefined, raw_prototype = None\<rparr>
   \<and> fst (upgrade example_env 7 example_world) = Inl (Thrown (JStr ''not ready''))
   \<and> proto (heap (installed_and_marked example_env 7 \<lparr>prototype = 13, extends = Undefined, raw_prototype = None\<rparr>
                     example_world) 7) = Some 13
   \<and> trace (snd (upgrade example_env 7 example_world))
       = [ProtoAssigned 7 13, Marked 7, Invoked ''readyCallback'' 7 True]
   \<and> invocations ''insertedCallback'' 7 (trace (snd (upgrade example_env 7 example_world))) = 0
   \<and> get_prop (heap (snd (upgrade example_env 7 example_world))) 7 ''label'' = JStr ''partial''
   \<and> upgrade example_env 7 (snd (upgrade example_env 7 example_world))
       = (Inr (), snd (upgrade example_env 7 example_world))"
proof -
  let ?wd = "\<lparr>prototype = 13, extends = Undefined, raw_prototype = None\<rparr>"
  have u: "\<not> truthy (get_prop (heap example_world) 7 ''__upgraded__'')" by code_simp
  have k: "registry_key (heap example_world) 7 = ''x-throwing''" by code_simp
  have m: "registry example_world (registry_key (heap example_world) 7) = Some ?wd"
    unfolding k by (simp add: example_world_def)
  have i: "fst (redefine_prototype example_env 7 ?wd example_world) = Inr ()" by code_simp
  have g: "get_prop (heap (installed_and_marked example_env 7 ?wd example_world)) 7 ''readyCallback'' = JRef 23"
    by code_simp
  have c: "callable (heap (installed_and_marked example_env 7 ?wd example_world) 23)" by code_simp
  have t: "fst (apply_fun example_env 23 7 [JRef (prototype ?wd)]
                 (heap (installed_and_marked example_env 7 ?wd example_world)))
           = Inl (Thrown (JStr ''not ready''))"
    by (simp add: example_env_def)
  have p: "has_proto example_env" by (simp add: example_env_def)
  have e: "trace example_world = []" by (simp add: example_world_def)
  have l: "get_prop (heap (snd (upgrade example_env 7 example_world))) 7 ''label'' = JStr ''partial''"
    by code_simp
  have s: "truthy (get_prop (heap (snd (upgrade example_env 7 example_world))) 7 ''__upgraded__'')"
    by code_simp
  from ready_callback_throws [OF u m i g c t] u m p e l s show ?thesis by simp
qed

section \<open>Properties of parse\<close>

lemma parse_loop_in_order: "parse_loop env nodes idx w = upgrade_in_order env (drop idx nodes) w"
proof (induction env nodes idx w rule: parse_loop.induct)
  case (1 env nodes idx w)
  show ?case
  proof (cases "idx < length nodes")
    case True
    then have d: "drop idx nodes = nodes ! idx # drop (Suc idx) nodes"
      by (simp add: Cons_nth_drop_Suc)
    show ?thesis
    proof (cases "upgrade env (nodes ! idx) w")
      case (Pair r w')
      show ?thesis
      proof (cases r)
        case (Inl err)
        with Pair True d show ?thesis by simp
      next
        case (Inr u)
        from "1.IH" [OF True Pair [symmetric] Inr] Pair True d Inr show ?thesis
          by (simp del: parse_loop.simps add: parse_loop.simps [of env nodes idx w])
      qed
    qed
  next
    case False
    then show ?thesis by simp
  qed
qed

lemma upgrade_in_order_queries:
  "upgrade_in_order env nodes w = (r, w') \<Longrightarrow> queries (trace w') = queries (trace w)"
proof (induction nodes arbitrary: w)
  case Nil
  then show ?case by simp
next
  case (Cons node nodes)
  obtain r1 w1 where u: "upgrade env node w = (r1, w1)" by (cases "upgrade env node w")
  from upgrade_queries [OF u] Cons u show ?case by (cases r1) auto
qed

text \<open>
  \<^bold>\<open>C6\<close>. \<^verbatim>\<open>parse\<close> is a no-op when native registration is available. Otherwise it
  performs exactly one query, of \<^verbatim>\<open>root\<close> or, where \<^verbatim>\<open>root\<close> is not given, of the whole
  document, with the selectors of the Selector List as one comma-separated selector; and
  it calls \<^verbatim>\<open>upgrade\<close> on each match in the order in which the query returned them. An
  exception of the query or of an \<^verbatim>\<open>upgrade\<close> ends the call and propagates.
\<close>

theorem parse_queries_once_and_upgrades_in_order:
  "(has_document_register env \<longrightarrow> parse env root w = (Inr (), w))
   \<and> (\<not> has_document_register env \<and> js_or root (JRef (doc env)) = JRef r \<longrightarrow>
        parse env root w =
          (case querySelectorAll env r (join_comma (selectors w)) (heap w) of
             Inl err \<Rightarrow> (Inl err, w\<lparr>trace := trace w @ [Queried r (join_comma (selectors w))]\<rparr>)
           | Inr nodes \<Rightarrow>
               upgrade_in_order env nodes (w\<lparr>trace := trace w @ [Queried r (join_comma (selectors w))]\<rparr>))
        \<and> queries (trace (snd (parse env root w))) = queries (trace w) + 1)"
proof (intro conjI impI)
  assume "has_document_register env"
  then show "parse env root w = (Inr (), w)" by (simp add: parse_def)
next
  assume a: "\<not> has_document_register env \<and> js_or root (JRef (doc env)) = JRef r"
  let ?w1 = "w\<lparr>trace := trace w @ [Queried r (join_comma (selectors w))]\<rparr>"
  show p: "parse env root w =
          (case querySelectorAll env r (join_comma (selectors w)) (heap w) of
             Inl err \<Rightarrow> (Inl err, ?w1)
           | Inr nodes \<Rightarrow> upgrade_in_order env nodes ?w1)"
    using a by (simp add: parse_def Let_def parse_loop_in_order del: parse_loop.simps split: sum.splits)
  show "queries (trace (snd (parse env root w))) = queries (trace w) + 1"
  proof (cases "querySelectorAll env r (join_comma (selectors w)) (heap w)")
    case (Inl err)
    with p show ?thesis by simp
  next
    case (Inr nodes)
    obtain r' w' where u: "upgrade_in_order env nodes ?w1 = (r', w')"
      by (cases "upgrade_in_order env nodes ?w1")
    from upgrade_in_order_queries [OF u] p Inr u show ?thesis by simp
  qed
qed

theorem parse_queries_once_and_upgrades_in_order_witness:
  "\<not> has_document_register example_env
   \<and> js_or Undefined (JRef (doc example_env)) = JRef 1
   \<and> join_comma (selectors example_world) =
       ''button[is='' @ [CHR 0x22] @ ''pd-button'' @ [CHR 0x22] @ ''],pd-panel,x-forgetful,x-throwing,x-reset''
   \<and> parse example_env Undefined example_world =
       upgrade_in_order example_env [0, 4]
         (example_world\<lparr>trace := [Queried 1 (join_comma (selectors example_world))]\<rparr>)
   \<and> queries (trace (snd (parse example_env Undefined example_world))) = 1
   \<and> parse (example_env\<lparr>has_document_register := True\<rparr>) Undefined example_world = (Inr (), example_world)"
proof -
  have n: "\<not> has_document_register example_env" by (simp add: example_env_def)
  have d: "js_or Undefined (JRef (doc example_env)) = JRef 1" by (simp add: example_env_def js_or_def)
  have s: "join_comma (selectors example_world) =
       ''button[is='' @ [CHR 0x22] @ ''pd-button'' @ [CHR 0x22] @ ''],pd-panel,x-forgetful,x-throwing,x-reset''"
    by code_simp
  have q: "querySelectorAll example_env 1 (join_comma (selectors example_world)) (heap example_world) = Inr [0, 4]"
    unfolding s by (simp add: example_env_def)
  have t: "trace example_world = []" by (simp add: example_world_def)
  have y: "has_document_register (example_env\<lparr>has_document_register := True\<rparr>)" by simp
  from parse_queries_once_and_upgrades_in_order [of example_env Undefined example_world 1] n d
  have body: "parse example_env Undefined example_world =
          (case querySelectorAll example_env 1 (join_comma (selectors example_world)) (heap example_world) of
             Inl err \<Rightarrow> (Inl err, example_world\<lparr>trace := trace example_world
                                      @ [Queried 1 (join_comma (selectors example_world))]\<rparr>)
           | Inr nodes \<Rightarrow>
               upgrade_in_order example_env nodes (example_world\<lparr>trace := trace example_world
                                      @ [Queried 1 (join_comma (selectors example_world))]\<rparr>))
        \<and> queries (trace (snd (parse example_env Undefined example_world))) = queries (trace example_world) + 1"
    by blast
  from body [THEN conjunct1] q t
  have a: "parse example_env Undefined example_world =
       upgrade_in_order example_env [0, 4]
         (example_world\<lparr>trace := [Queried 1 (join_comma (selectors example_world))]\<rparr>)"
    by (simp del: upgrade_in_order.simps)
  from body [THEN conjunct2] t
  have b: "queries (trace (snd (parse example_env Undefined example_world))) = 1"
    by simp
  from parse_queries_once_and_upgrades_in_order
    [of "example_env\<lparr>has_document_register := True\<rparr>" Undefined example_world 1]
  have c: "parse (example_env\<lparr>has_document_register := True\<rparr>) Undefined example_world = (Inr (), example_world)"
    using y by simp
  from n d s a b c show ?thesis by blast
qed

section \<open>Properties of register\<close>

lemma getTagConstructor_registers:
  "getTagConstructor env tag baseName protoObj w = (Inr c, w1) \<Longrightarrow> registry w1 tag \<noteq> None"
  by (auto simp: getTagConstructor_def Let_def split: if_splits prod.splits sum.splits)

lemma register_registers:
  "register env tag baseElement extensions w = (Inr c, w1) \<Longrightarrow> registry w1 tag \<noteq> None"
  unfolding register_def
  by (auto dest!: getTagConstructor_registers split: if_splits prod.splits sum.splits jsval.splits)

text \<open>
  \<^bold>\<open>C1\<close>. Every call of \<^verbatim>\<open>register\<close> that fails validation, because the tag is already
  present in the Registry or because the base type neither is nor descends from
  \<^verbatim>\<open>HTMLElement\<close>, throws and leaves the Registry and the Selector List, and everything
  else, exactly as they were before the call. The tag is present when \<^verbatim>\<open>tag in registry\<close>
  holds: when a widget is registered under it, and also when it is a name that the
  Registry object inherits, such as \<^verbatim>\<open>constructor\<close> or \<^verbatim>\<open>toString\<close>. In particular, after a
  \<^verbatim>\<open>register\<close> that returned, the tag is present, and any further \<^verbatim>\<open>register\<close> of the same tag
  throws and does not touch the entry that the first one established.
\<close>

theorem register_rejects_without_change:
  "(in_registry env w tag \<longrightarrow>
      register env tag baseElement extensions w =
        (Inl (TypeError (''A widget is already registered with tag '' @ [CHR 0x22] @ tag @ [CHR 0x22] @ ''.'')), w))
   \<and> (\<not> in_registry env w tag
        \<and> \<not> (strict_eq baseElement (JRef (HTMLElement env))
               \<or> instanceof_HTMLElement (heap w) (member (heap w) baseElement ''prototype'')) \<longrightarrow>
      register env tag baseElement extensions w =
        (Inl (if baseElement = Undefined \<or> baseElement = Null then EngineTypeError
              else TypeError ''baseElement must have HTMLElement in its prototype chain''), w))
   \<and> (register env tag baseElement extensions w = (Inr c, w1) \<longrightarrow>
        \<not> in_registry env w tag
        \<and> registry w1 tag \<noteq> None
        \<and> in_registry env w1 tag
        \<and> register env tag baseElement' extensions' w1 =
            (Inl (TypeError (''A widget is already registered with tag '' @ [CHR 0x22] @ tag @ [CHR 0x22] @ ''.'')), w1))"
proof (intro conjI impI)
  assume ok: "register env tag baseElement extensions w = (Inr c, w1)"
  then show "\<not> in_registry env w tag"
    by (auto simp: register_def split: if_splits)
  from register_registers [OF ok] show r: "registry w1 tag \<noteq> None" .
  then show i: "in_registry env w1 tag" by (simp add: in_registry_def)
  then show "register env tag baseElement' extensions' w1 =
            (Inl (TypeError (''A widget is already registered with tag '' @ [CHR 0x22] @ tag @ [CHR 0x22] @ ''.'')), w1)"
    by (simp add: register_def)
qed (auto simp: register_def)

theorem register_rejects_without_change_witness:
  "in_registry example_env example_world ''pd-button''
   \<and> register example_env ''pd-button'' (JRef 40) [] example_world =
       (Inl (TypeError (''A widget is already registered with tag '' @ [CHR 0x22] @ ''pd-button'' @ [CHR 0x22] @ ''.'')),
        example_world)
   \<and> registry example_world ''toString'' = None
   \<and> in_registry example_env example_world ''toString''
   \<and> register example_env ''toString'' (JRef 5) [] example_world =
       (Inl (TypeError (''A widget is already registered with tag '' @ [CHR 0x22] @ ''toString'' @ [CHR 0x22] @ ''.'')),
        example_world)
   \<and> register example_env ''constructor'' (JRef 40) [] example_world =
       (Inl (TypeError (''A widget is already registered with tag '' @ [CHR 0x22] @ ''constructor'' @ [CHR 0x22] @ ''.'')),
        example_world)
   \<and> \<not> in_registry example_env example_world ''pd-menu''
   \<and> \<not> instanceof_HTMLElement (heap example_world) (member (heap example_world) (JRef 5) ''prototype'')
   \<and> register example_env ''pd-menu'' (JRef 5) [] example_world =
       (Inl (TypeError ''baseElement must have HTMLElement in its prototype chain''), example_world)
   \<and> fst (register example_env ''pd-menu'' (JRef 40) [] example_world) = Inr (ElementFactory ''pd-menu'')
   \<and> registry (snd (register example_env ''pd-menu'' (JRef 40) [] example_world)) ''pd-menu'' \<noteq> None
   \<and> register example_env ''pd-menu'' (JRef 40) [JRef 5] (snd (register example_env ''pd-menu'' (JRef 40) [] example_world)) =
       (Inl (TypeError (''A widget is already registered with tag '' @ [CHR 0x22] @ ''pd-menu'' @ [CHR 0x22] @ ''.'')),
        snd (register example_env ''pd-menu'' (JRef 40) [] example_world))"
proof -
  have p: "in_registry example_env example_world ''pd-button''"
    by (simp add: in_registry_def example_world_def)
  have n: "registry example_world ''toString'' = None" by (simp add: example_world_def)
  have s: "in_registry example_env example_world ''toString''" by code_simp
  have o: "in_registry example_env example_world ''constructor''" by code_simp
  have a: "\<not> in_registry example_env example_world ''pd-menu''" by code_simp
  have e: "\<not> strict_eq (JRef 5) (JRef (HTMLElement example_env))"
    by (simp add: strict_eq_def example_env_def)
  have i: "\<not> instanceof_HTMLElement (heap example_world) (member (heap example_world) (JRef 5) ''prototype'')"
    by code_simp
  have f: "fst (register example_env ''pd-menu'' (JRef 40) [] example_world) = Inr (ElementFactory ''pd-menu'')"
    by code_simp
  then have ok: "register example_env ''pd-menu'' (JRef 40) [] example_world =
      (Inr (ElementFactory ''pd-menu''), snd (register example_env ''pd-menu'' (JRef 40) [] example_world))"
    by (simp add: prod_eq_iff)
  from register_rejects_without_change [of example_env example_world "''pd-button''" "JRef 40" "[]"]
  have c1: "register example_env ''pd-button'' (JRef 40) [] example_world =
       (Inl (TypeError (''A widget is already registered with tag '' @ [CHR 0x22] @ ''pd-button'' @ [CHR 0x22] @ ''.'')),
        example_world)"
    using p by simp
  from register_rejects_without_change [of example_env example_world "''toString''" "JRef 5" "[]"]
  have c5: "register example_env ''toString'' (JRef 5) [] example_world =
       (Inl (TypeError (''A widget is already registered with tag '' @ [CHR 0x22] @ ''toString'' @ [CHR 0x22] @ ''.'')),
        example_world)"
    using s by simp
  from register_rejects_without_change [of example_env example_world "''constructor''" "JRef 40" "[]"]
  have c6: "register example_env ''constructor'' (JRef 40) [] example_world =
       (Inl (TypeError (''A widget is already registered with tag '' @ [CHR 0x22] @ ''constructor'' @ [CHR 0x22] @ ''.'')),
        example_world)"
    using o by simp
  from register_rejects_without_change [of example_env example_world "''pd-menu''" "JRef 5" "[]"]
  have c2: "register example_env ''pd-menu'' (JRef 5) [] example_world =
       (Inl (TypeError ''baseElement must have HTMLElement in its prototype chain''), example_world)"
    using a e i by simp
  from register_rejects_without_change [of example_env example_world "''pd-menu''" "JRef 40" "[]"
      "ElementFactory ''pd-menu''" "snd (register example_env ''pd-menu'' (JRef 40) [] example_world)"
      "JRef 40" "[JRef 5]"]
  have c3: "registry (snd (register example_env ''pd-menu'' (JRef 40) [] example_world)) ''pd-menu'' \<noteq> None"
    and c4: "register example_env ''pd-menu'' (JRef 40) [JRef 5] (snd (register example_env ''pd-menu'' (JRef 40) [] example_world)) =
       (Inl (TypeError (''A widget is already registered with tag '' @ [CHR 0x22] @ ''pd-menu'' @ [CHR 0x22] @ ''.'')),
        snd (register example_env ''pd-menu'' (JRef 40) [] example_world))"
    using ok by simp_all
  show ?thesis by (intro conjI p c1 n s c5 c6 a i c2 f c3 c4)
qed

end
